theory Spec2Isabelle
  imports Main "HOL-Library.AList"
begin

section \<open>Strings, character classes and dictionaries\<close>

text \<open>
  A Python \<open>str\<close> is modelled as a \<open>string\<close> whose characters are read as the code points
  below 256; a Python \<open>dict\<close> as an association list in insertion order with distinct keys.
  The character classes are those of Python's \<open>re\<close> module on \<open>str\<close> patterns (Unicode
  matching), restricted to that range.
\<close>

type_synonym dict = "(string \<times> string) list"

definition is_word :: "char \<Rightarrow> bool" where
  \<comment> \<open>\<open>\w\<close>: alphanumeric code points and the underscore\<close>
  "is_word c = (let n = (of_char c :: nat) in
     (48 \<le> n \<and> n \<le> 57) \<or> (65 \<le> n \<and> n \<le> 90) \<or> n = 95 \<or> (97 \<le> n \<and> n \<le> 122)
     \<or> n = 170 \<or> n = 178 \<or> n = 179 \<or> n = 181 \<or> n = 185 \<or> n = 186
     \<or> (188 \<le> n \<and> n \<le> 190) \<or> (192 \<le> n \<and> n \<le> 214)
     \<or> (216 \<le> n \<and> n \<le> 246) \<or> (248 \<le> n \<and> n \<le> 255))"

definition is_space :: "char \<Rightarrow> bool" where
  \<comment> \<open>\<open>\s\<close>: Unicode whitespace\<close>
  "is_space c = (let n = (of_char c :: nat) in
     (9 \<le> n \<and> n \<le> 13) \<or> (28 \<le> n \<and> n \<le> 32) \<or> n = 133 \<or> n = 160)"

definition is_value_char :: "char \<Rightarrow> bool" where
  \<comment> \<open>the class \<open>[\w\d_-]\<close> of \<open>URL_PARAMETER_VALUE_PATTERN\<close>; \<open>\d\<close> and \<open>_\<close> are inside \<open>\w\<close>\<close>
  "is_value_char c = (is_word c \<or> c = CHR ''-'')"

definition dict_update :: "dict \<Rightarrow> dict \<Rightarrow> dict" where
  \<comment> \<open>\<open>d.update(e)\<close>: the items of \<open>e\<close> are stored into \<open>d\<close> in order\<close>
  "dict_update d e = fold (\<lambda>(k, v) acc. AList.update k v acc) e d"

section \<open>URL parameters\<close>

definition match_value :: "string \<Rightarrow> (string \<times> nat) option" where
  \<comment> \<open>\<open>[\w\d_-]+\<close> at the head of the input: the longest run, and its length\<close>
  "match_value s = (let v = takeWhile is_value_char s in
     if v = [] then None else Some (v, length v))"

definition match_colon_value :: "string \<Rightarrow> (string \<times> nat) option" where
  \<comment> \<open>\<open>:\s?[\w\d_-]+\<close> at the head of the input. The optional space is tried first; when the
      value does not follow it, the matcher backtracks and tries the value without it.\<close>
  "match_colon_value s = (case s of
       [] \<Rightarrow> None
     | c # r \<Rightarrow>
         if c \<noteq> CHR '':'' then None
         else (case r of
             [] \<Rightarrow> None
           | c' # r' \<Rightarrow>
               if is_space c' then
                 (case match_value r' of
                    Some (v, n) \<Rightarrow> Some (v, n + 2)
                  | None \<Rightarrow> map_option (\<lambda>(v, n). (v, n + 1)) (match_value r))
               else map_option (\<lambda>(v, n). (v, n + 1)) (match_value r)))"

definition match_url_parameter :: "string \<Rightarrow> (string \<times> string \<times> nat) option" where
  \<comment> \<open>\<open>URL_PARAMETER_PATTERN\<close> at the head of the input: key, value and length of the match.
      The key is the longest run of word characters: a shorter one is followed by a word
      character, never by the colon the pattern wants next.\<close>
  "match_url_parameter s = (case s of
       [] \<Rightarrow> None
     | c # r \<Rightarrow>
         if c \<noteq> CHR ''/'' then None
         else (let key = takeWhile is_word r in
           if key = [] then None
           else (case match_colon_value (dropWhile is_word r) of
               None \<Rightarrow> None
             | Some (v, n) \<Rightarrow> Some (key, v, 1 + length key + n))))"

fun search_url_parameter :: "string \<Rightarrow> bool" where
  \<comment> \<open>\<open>URL_PARAMETER_PATTERN.search(url)\<close>, as a truth value\<close>
  "search_url_parameter [] = False"
| "search_url_parameter (c # cs) =
     (match_url_parameter (c # cs) \<noteq> None \<or> search_url_parameter cs)"

fun findall_url_parameter :: "string \<Rightarrow> (string \<times> string) list" where
  \<comment> \<open>\<open>URL_PARAMETER_PATTERN.findall(url)\<close>: the matches from left to right, each search
      starting where the previous match ended\<close>
  "findall_url_parameter [] = []"
| "findall_url_parameter (c # cs) =
     (case match_url_parameter (c # cs) of
        Some (k, v, n) \<Rightarrow> (k, v) # findall_url_parameter (drop (n - 1) cs)
      | None \<Rightarrow> findall_url_parameter cs)"

definition match_key_value :: "string \<Rightarrow> string \<Rightarrow> nat option" where
  \<comment> \<open>the pattern \<open>{k}:\s?[\w\d_-]+\<close> at the head of the input, for a key \<open>k\<close> of word
      characters (which the pattern takes literally): the length of the match\<close>
  "match_key_value k s =
     (if take (length k) s = k then
        map_option (\<lambda>(v, n). length k + n) (match_colon_value (drop (length k) s))
      else None)"

fun sub_key_value :: "string \<Rightarrow> string \<Rightarrow> string" where
  \<comment> \<open>\<open>re.sub(f'{k}:\s?[\w\d_-]+', f':{k}', url)\<close>: every match, from left to right, is
      replaced by \<open>:k\<close>\<close>
  "sub_key_value k [] = []"
| "sub_key_value k (c # cs) =
     (case match_key_value k (c # cs) of
        Some n \<Rightarrow> (CHR '':'' # k) @ sub_key_value k (drop (n - 1) cs)
      | None \<Rightarrow> c # sub_key_value k cs)"

definition extract_url_parameters :: "string \<Rightarrow> string \<times> dict" where
  "extract_url_parameters url =
     (if search_url_parameter url then
        fold (\<lambda>(k, v) (u, ps). (sub_key_value k u, AList.update k v ps))
             (findall_url_parameter url) (url, [])
      else (url, []))"

section \<open>Errors, text and bytes\<close>

datatype error =
    ValueError
  | UnicodeEncodeError
  | UnicodeDecodeError
  | KeyError string
  | TypeError
  | IndexError

fun is_ValueError :: "error \<Rightarrow> bool" where
  \<comment> \<open>\<open>isinstance(e, ValueError)\<close>: the Unicode errors are subclasses of \<open>ValueError\<close>\<close>
  "is_ValueError ValueError = True"
| "is_ValueError UnicodeEncodeError = True"
| "is_ValueError UnicodeDecodeError = True"
| "is_ValueError _ = False"

text \<open>
  A body is a byte string; the text it is decoded to, or encoded from, can hold any code
  point, so body text is a list of code points. \<open>str.encode()\<close> and \<open>bytes.decode()\<close> are
  strict UTF-8.
\<close>

type_synonym bytes = "char list"
type_synonym unicode = "nat list"

fun utf8_encode :: "unicode \<Rightarrow> error + bytes" where
  "utf8_encode [] = Inr []"
| "utf8_encode (n # ns) =
     (if (55296 \<le> n \<and> n \<le> 57343) \<or> 1114112 \<le> n then Inl UnicodeEncodeError
      else (case utf8_encode ns of
          Inl e \<Rightarrow> Inl e
        | Inr bs \<Rightarrow> Inr (
            (if n < 128 then [char_of n]
             else if n < 2048 then [char_of (192 + n div 64), char_of (128 + n mod 64)]
             else if n < 65536 then
               [char_of (224 + n div 4096), char_of (128 + n div 64 mod 64),
                char_of (128 + n mod 64)]
             else
               [char_of (240 + n div 262144), char_of (128 + n div 4096 mod 64),
                char_of (128 + n div 64 mod 64), char_of (128 + n mod 64)]) @ bs)))"

definition continuation :: "char \<Rightarrow> nat option" where
  \<comment> \<open>the six payload bits of a continuation byte \<open>10xxxxxx\<close>\<close>
  "continuation b = (let n = (of_char b :: nat) in
     if 128 \<le> n \<and> n < 192 then Some (n - 128) else None)"

fun utf8_decode :: "bytes \<Rightarrow> error + unicode" where
  "utf8_decode [] = Inr []"
| "utf8_decode (b # bs) =
     (let n = (of_char b :: nat) in
      if n < 128 then map_sum id ((#) n) (utf8_decode bs)
      else if 194 \<le> n \<and> n < 224 then
        (case map continuation (take 1 bs) of
           [Some x] \<Rightarrow> map_sum id ((#) ((n - 192) * 64 + x)) (utf8_decode (drop 1 bs))
         | _ \<Rightarrow> Inl UnicodeDecodeError)
      else if 224 \<le> n \<and> n < 240 then
        (case map continuation (take 2 bs) of
           [Some x, Some y] \<Rightarrow>
             (let cp = (n - 224) * 4096 + x * 64 + y in
              if cp < 2048 \<or> (55296 \<le> cp \<and> cp \<le> 57343) then Inl UnicodeDecodeError
              else map_sum id ((#) cp) (utf8_decode (drop 2 bs)))
         | _ \<Rightarrow> Inl UnicodeDecodeError)
      else if 240 \<le> n \<and> n < 245 then
        (case map continuation (take 3 bs) of
           [Some x, Some y, Some z] \<Rightarrow>
             (let cp = (n - 240) * 262144 + x * 4096 + y * 64 + z in
              if cp < 65536 \<or> 1114112 \<le> cp then Inl UnicodeDecodeError
              else map_sum id ((#) cp) (utf8_decode (drop 3 bs)))
         | _ \<Rightarrow> Inl UnicodeDecodeError)
      else Inl UnicodeDecodeError)"

fun split_char :: "char \<Rightarrow> string \<Rightarrow> string list" where
  \<comment> \<open>\<open>s.split(sep)\<close> for a separator of one character\<close>
  "split_char sep [] = [[]]"
| "split_char sep (c # cs) =
     (if c = sep then [] # split_char sep cs
      else (case split_char sep cs of
          [] \<Rightarrow> [[c]]
        | p # ps \<Rightarrow> (c # p) # ps))"

fun join :: "string \<Rightarrow> string list \<Rightarrow> string" where
  \<comment> \<open>\<open>sep.join(parts)\<close>\<close>
  "join sep [] = []"
| "join sep [p] = p"
| "join sep (p # q # ps) = p @ sep @ join sep (q # ps)"

definition is_digit :: "char \<Rightarrow> bool" where
  "is_digit c = (let n = (of_char c :: nat) in 48 \<le> n \<and> n \<le> 57)"

fun digits_ok :: "string \<Rightarrow> bool" where
  \<comment> \<open>decimal digits, single underscores allowed between two digits\<close>
  "digits_ok [] = False"
| "digits_ok [c] = is_digit c"
| "digits_ok (c # d # cs) =
     (is_digit c \<and> (if d = CHR ''_'' then digits_ok cs else digits_ok (d # cs)))"

definition digits_value :: "string \<Rightarrow> nat" where
  "digits_value s =
     foldl (\<lambda>acc c. 10 * acc + (of_char c - 48)) 0 (filter (\<lambda>c. c \<noteq> CHR ''_'') s)"

definition strip :: "string \<Rightarrow> string" where
  \<comment> \<open>\<open>str.strip()\<close>\<close>
  "strip s = rev (dropWhile is_space (rev (dropWhile is_space s)))"

definition is_int_space :: "char \<Rightarrow> bool" where
  \<comment> \<open>the whitespace that \<open>int\<close> skips around a number: the ASCII whitespace, and the
      Unicode whitespace beyond ASCII, which \<open>int\<close> reads as a blank\<close>
  "is_int_space c = (let n = (of_char c :: nat) in
     (9 \<le> n \<and> n \<le> 13) \<or> n = 32 \<or> n = 133 \<or> n = 160)"

definition py_int :: "string \<Rightarrow> int option" where
  \<comment> \<open>\<open>int(s)\<close> for a \<open>str\<close>: surrounding whitespace, an optional sign, decimal digits;
      \<open>None\<close> where Python raises \<open>ValueError\<close>. The bound that later interpreters put on
      the number of digits is left out.\<close>
  "py_int s = (case rev (dropWhile is_int_space (rev (dropWhile is_int_space s))) of
       [] \<Rightarrow> None
     | c # cs \<Rightarrow>
         if c = CHR ''-'' then (if digits_ok cs then Some (- int (digits_value cs)) else None)
         else if c = CHR ''+'' then (if digits_ok cs then Some (int (digits_value cs)) else None)
         else if digits_ok (c # cs) then Some (int (digits_value (c # cs)))
         else None)"

section \<open>Headers and query strings\<close>

datatype header_item = HStr string | HPair string string

definition split_header :: "string \<Rightarrow> string \<times> string" where
  \<comment> \<open>Modelled from the spec: \<open>helpers.normalize_headers\<close> is not among the sources. A header
      given as a string has the form \<open>Name: Value\<close>; it is cut at the first colon and the
      blanks around both parts are dropped.\<close>
  "split_header s =
     (strip (takeWhile (\<lambda>c. c \<noteq> CHR '':'') s),
      strip (drop 1 (dropWhile (\<lambda>c. c \<noteq> CHR '':'') s)))"

fun normalize_header :: "header_item \<Rightarrow> string \<times> string" where
  \<comment> \<open>Modelled from the spec: \<open>helpers.normalize_headers\<close> is not among the sources. Each
      header becomes a (name, value) pair in the casing supplied.\<close>
  "normalize_header (HStr s) = split_header s"
| "normalize_header (HPair k v) = (k, v)"

definition normalize_headers :: "header_item list option \<Rightarrow> (string \<times> string) list option" where
  \<comment> \<open>Modelled from the spec: \<open>helpers.normalize_headers\<close> is not among the sources. It
      returns the ordered sequence of (name, value) pairs; absent headers stay absent.\<close>
  "normalize_headers hs = map_option (map normalize_header) hs"

definition normalize_query_string :: "dict option \<Rightarrow> dict option" where
  \<comment> \<open>Modelled from the spec: \<open>helpers.normalize_query_string\<close> is not among the sources. A
      mapping is returned as it is; an absent or empty query gives an absent result.\<close>
  "normalize_query_string q = (case q of
       None \<Rightarrow> None
     | Some d \<Rightarrow> if d = [] then None else Some d)"

section \<open>Response\<close>

definition match_charset :: "string \<Rightarrow> string option" where
  \<comment> \<open>\<open>charset=(.+)\<close> at the head of the input; the dot matches all but a newline\<close>
  "match_charset s =
     (if take 8 s = ''charset='' then
        (let g = takeWhile (\<lambda>c. c \<noteq> CHR 0x0A) (drop 8 s) in
         if g = [] then None else Some g)
      else None)"

definition match_content_type :: "string \<Rightarrow> (string \<times> string option) option" where
  \<comment> \<open>\<open>CONTENT_TYPE_PATTERN.match(v)\<close>: the two groups. Both \<open>\w+\<close> take their longest run:
      a shorter first one is not followed by the slash, and the optional group after the
      second one may match nothing.\<close>
  "match_content_type v =
     (let t = takeWhile is_word v; r = dropWhile is_word v in
      if t = [] then None
      else (case r of
          [] \<Rightarrow> None
        | c # r' \<Rightarrow>
            if c \<noteq> CHR ''/'' then None
            else (let u = takeWhile is_word r'; r'' = dropWhile is_word r' in
              if u = [] then None
              else Some (t @ ''/'' @ u,
                (case r'' of
                   [] \<Rightarrow> None
                 | d # w \<Rightarrow>
                     if d \<noteq> CHR '';'' then None
                     else (case w of
                         [] \<Rightarrow> None
                       | e # w' \<Rightarrow>
                           if is_space e then
                             (case match_charset w' of
                                Some g \<Rightarrow> Some g
                              | None \<Rightarrow> match_charset w)
                           else match_charset w))))))"

record response =
  status :: string
  response_headers :: "(string \<times> string) list"
  body :: "bytes option"
  status_code :: int
  status_text :: "string option"
  response_content_type :: "string option"
  encoding :: "string option"

datatype body_arg = BodyText unicode | BodyBytes bytes

fun encode_body :: "body_arg option \<Rightarrow> error + bytes option" where
  \<comment> \<open>\<open>body.encode() if body is not None and not isinstance(body, bytes) else body\<close>\<close>
  "encode_body None = Inr None"
| "encode_body (Some (BodyBytes b)) = Inr (Some b)"
| "encode_body (Some (BodyText t)) = map_sum id Some (utf8_encode t)"

definition parse_status :: "string \<Rightarrow> error + int \<times> string option" where
  \<comment> \<open>lines 26 to 30: the status code, and the status text when the line has a space\<close>
  "parse_status st =
     (if CHR '' '' \<in> set st then
        (case split_char CHR '' '' st of
           [] \<Rightarrow> Inl IndexError
         | p # ps \<Rightarrow>
             (case py_int p of
                None \<Rightarrow> Inl ValueError
              | Some n \<Rightarrow> Inr (n, Some (join '' '' ps))))
      else (case py_int st of
          None \<Rightarrow> Inl ValueError
        | Some n \<Rightarrow> Inr (n, None)))"

fun scan_content_type :: "(string \<times> string) list \<Rightarrow> string option \<times> string option" where
  \<comment> \<open>lines 32 to 37: the loop stops at the first header named \<open>Content-Type\<close>\<close>
  "scan_content_type [] = (None, None)"
| "scan_content_type ((k, v) # hs) =
     (if k = ''Content-Type'' then
        (case match_content_type v of
           Some (ct, enc) \<Rightarrow> (Some ct, enc)
         | None \<Rightarrow> (None, None))
      else scan_content_type hs)"

definition Response_init ::
  "string \<Rightarrow> header_item list option \<Rightarrow> body_arg option \<Rightarrow> error + response" where
  "Response_init st hs b =
     (case encode_body b of
        Inl e \<Rightarrow> Inl e
      | Inr b' \<Rightarrow>
          (case parse_status st of
             Inl e \<Rightarrow> Inl e
           | Inr (code, txt) \<Rightarrow>
               (case normalize_headers hs of
                  None \<Rightarrow> Inl TypeError
                | Some hl \<Rightarrow>
                    Inr \<lparr>status = st, response_headers = hl, body = b', status_code = code,
                         status_text = txt,
                         response_content_type = fst (scan_content_type hl),
                         encoding = snd (scan_content_type hl)\<rparr>)))"

record response_dict =
  rd_status :: string
  rd_headers :: "string list option"
  rd_body :: "unicode option"

definition header_line :: "string \<times> string \<Rightarrow> string" where
  \<comment> \<open>\<open>': '.join(h)\<close>\<close>
  "header_line h = join '': '' [fst h, snd h]"

definition Response_to_dict :: "response \<Rightarrow> error + response_dict" where
  "Response_to_dict r =
     (let hs = (if response_headers r \<noteq> [] then Some (map header_line (response_headers r))
                else None)
      in (case body r of
          None \<Rightarrow> Inr \<lparr>rd_status = status r, rd_headers = hs, rd_body = None\<rparr>
        | Some b \<Rightarrow>
            if b = [] then Inr \<lparr>rd_status = status r, rd_headers = hs, rd_body = None\<rparr>
            else (case utf8_decode b of
                Inl e \<Rightarrow> Inl e
              | Inr t \<Rightarrow> Inr \<lparr>rd_status = status r, rd_headers = hs, rd_body = Some t\<rparr>)))"

definition Response_from_dict :: "response_dict \<Rightarrow> error + response" where
  \<comment> \<open>\<open>Response(**v)\<close>: \<open>status\<close> and \<open>headers\<close> have no default, so a mapping without
      \<open>headers\<close> is a \<open>TypeError\<close>\<close>
  "Response_from_dict v = (case rd_headers v of
       None \<Rightarrow> Inl TypeError
     | Some hs \<Rightarrow>
         Response_init (rd_status v) (Some (map HStr hs)) (map_option BodyText (rd_body v)))"

section \<open>Call\<close>

text \<open>The field \<open>as_label\<close> is the attribute \<open>as_\<close> of the source.\<close>

record call =
  title :: string
  url :: string
  verb :: string
  url_parameters :: dict
  form :: "dict option"
  content_type :: "string option"
  headers :: "(string \<times> string) list option"
  as_label :: "string option"
  query :: "dict option"
  description :: "string option"
  extra_environ :: "dict option"
  response :: "response option"

datatype response_arg = ResponseObject response | ResponseDict response_dict

fun set_response :: "response_arg option \<Rightarrow> error + response option" where
  \<comment> \<open>the setter of \<open>response\<close>: a mapping is made a \<open>Response\<close>. A \<open>response_dict\<close> has its
      \<open>status\<close> entry, so it is never the empty mapping that the setter would keep as it is.\<close>
  "set_response None = Inr None"
| "set_response (Some (ResponseObject r)) = Inr (Some r)"
| "set_response (Some (ResponseDict v)) = map_sum id Some (Response_from_dict v)"

definition Call_init ::
  "string \<Rightarrow> string \<Rightarrow> string \<Rightarrow> dict option \<Rightarrow> dict option \<Rightarrow> string option \<Rightarrow>
   header_item list option \<Rightarrow> string option \<Rightarrow> dict option \<Rightarrow> string option \<Rightarrow>
   dict option \<Rightarrow> response_arg option \<Rightarrow> error + call" where
  \<comment> \<open>the arguments in the order of the signature: \<open>title\<close>, \<open>url\<close>, \<open>verb\<close>,
      \<open>url_parameters\<close>, \<open>form\<close>, \<open>content_type\<close>, \<open>headers\<close>, \<open>as_\<close>, \<open>query\<close>,
      \<open>description\<close>, \<open>extra_environ\<close>, \<open>response\<close>\<close>
  "Call_init title' url' verb' url_parameters' form' content_type' headers' as' query'
     description' extra_environ' response' =
     (case set_response response' of
        Inl e \<Rightarrow> Inl e
      | Inr r \<Rightarrow>
          (let (u, ps) = extract_url_parameters url';
               ps' = (case url_parameters' of
                   None \<Rightarrow> ps
                 | Some d \<Rightarrow> if d = [] then ps else dict_update ps d)
           in Inr \<lparr>title = title', url = u, verb = verb', url_parameters = ps',
                   form = form', content_type = content_type',
                   headers = normalize_headers headers', as_label = as',
                   query = normalize_query_string query', description = description',
                   extra_environ = extra_environ', response = r\<rparr>))"

record call_dict =
  cd_title :: string
  cd_url :: string
  cd_verb :: string
  cd_url_parameters :: "dict option"
  cd_form :: "dict option"
  cd_headers :: "string list option"
  cd_as :: "string option"
  cd_query :: "dict option"
  cd_description :: "string option"
  cd_response :: "response_dict option"

definition Call_to_dict :: "call \<Rightarrow> error + call_dict" where
  \<comment> \<open>an entry of the result is \<open>None\<close> when the mapping has no such key\<close>
  "Call_to_dict c =
     (case (case response c of
              None \<Rightarrow> Inr None
            | Some r \<Rightarrow> map_sum id Some (Response_to_dict r)) of
        Inl e \<Rightarrow> Inl e
      | Inr rd \<Rightarrow>
          Inr \<lparr>cd_title = title c, cd_url = url c, cd_verb = verb c,
               cd_url_parameters = Some (url_parameters c),
               cd_form = form c,
               cd_headers = map_option (map header_line) (headers c),
               cd_as = as_label c, cd_query = query c, cd_description = description c,
               cd_response = rd\<rparr>)"

definition Call_from_dict :: "call_dict \<Rightarrow> error + call" where
  \<comment> \<open>\<open>Call(**d)\<close>: the keys a mapping of this shape cannot have take their defaults\<close>
  "Call_from_dict d =
     Call_init (cd_title d) (cd_url d) (cd_verb d) (cd_url_parameters d) (cd_form d) None
       (map_option (map HStr) (cd_headers d)) (cd_as d) (cd_query d) (cd_description d) None
       (map_option ResponseDict (cd_response d))"

section \<open>OverriddenCall\<close>

text \<open>
  The keyword arguments collected by \<open>**diff\<close>: those of \<open>Call.__init__\<close> that
  \<open>OverriddenCall.__init__\<close> does not name itself. A field is \<open>None\<close> when the key is
  missing, and \<open>Some None\<close> when the key is there with the value \<open>None\<close>. The constructor
  may add the key \<open>url_parameters\<close>, which no caller can pass inside \<open>**diff\<close>.
\<close>

record diff_kwargs =
  d_url :: "string option"
  d_verb :: "string option"
  d_form :: "dict option option"
  d_content_type :: "string option option"
  d_headers :: "header_item list option option"
  d_as :: "string option option"
  d_query :: "dict option option"
  d_extra_environ :: "dict option option"

record diff = diff_kwargs +
  d_url_parameters :: "dict option"

record overridden_call =
  as_call :: call
  base_call :: call
  diff :: diff

definition extract_diff_url :: "diff_kwargs \<Rightarrow> diff" where
  \<comment> \<open>lines 152 and 153\<close>
  "extract_diff_url kw = (case d_url kw of
       None \<Rightarrow> diff_kwargs.extend kw \<lparr>d_url_parameters = None\<rparr>
     | Some u \<Rightarrow>
         diff_kwargs.extend (kw\<lparr>d_url := Some (fst (extract_url_parameters u))\<rparr>)
           \<lparr>d_url_parameters = Some (snd (extract_url_parameters u))\<rparr>)"

definition update_diff_url_parameters :: "dict option \<Rightarrow> diff \<Rightarrow> error + diff" where
  \<comment> \<open>lines 154 and 155: \<open>diff['url_parameters']\<close> is a \<open>KeyError\<close> when the key is missing\<close>
  "update_diff_url_parameters url_parameters' df =
     (case url_parameters' of
        None \<Rightarrow> Inr df
      | Some ps \<Rightarrow>
          if ps = [] then Inr df
          else (case d_url_parameters df of
              None \<Rightarrow> Inl (KeyError ''url_parameters'')
            | Some qs \<Rightarrow> Inr (df\<lparr>d_url_parameters := Some (dict_update qs ps)\<rparr>)))"

definition overridden :: "'a option \<Rightarrow> 'a \<Rightarrow> 'a" where
  \<comment> \<open>\<open>data.update(diff)\<close> at one key: the entry of the diff, if it has one\<close>
  "overridden d b = (case d of None \<Rightarrow> b | Some v \<Rightarrow> v)"

definition OverriddenCall_init ::
  "call \<Rightarrow> string \<Rightarrow> string option \<Rightarrow> response_arg option \<Rightarrow> dict option \<Rightarrow> diff_kwargs \<Rightarrow>
   error + overridden_call" where
  \<comment> \<open>the arguments in the order of the signature: \<open>base_call\<close>, \<open>title\<close>, \<open>description\<close>,
      \<open>response\<close>, \<open>url_parameters\<close>, \<open>**diff\<close>. The mapping \<open>data\<close> has the keys of
      \<open>base_call.to_dict()\<close> but \<open>response\<close>, \<open>title\<close> and \<open>description\<close>, so
      \<open>content_type\<close> and \<open>extra_environ\<close> come from the diff alone.\<close>
  "OverriddenCall_init base title' description' response' url_parameters' kw =
     (case update_diff_url_parameters url_parameters' (extract_diff_url kw) of
        Inl e \<Rightarrow> Inl e
      | Inr df \<Rightarrow>
          (case Call_to_dict base of
             Inl e \<Rightarrow> Inl e
           | Inr data \<Rightarrow>
               (case Call_init title'
                       (overridden (d_url df) (cd_url data))
                       (overridden (d_verb df) (cd_verb data))
                       (overridden (map_option Some (d_url_parameters df))
                          (cd_url_parameters data))
                       (overridden (d_form df) (cd_form data))
                       (overridden (d_content_type df) None)
                       (overridden (d_headers df) (map_option (map HStr) (cd_headers data)))
                       (overridden (d_as df) (cd_as data))
                       (overridden (d_query df) (cd_query data))
                       description'
                       (overridden (d_extra_environ df) None)
                       response' of
                  Inl e \<Rightarrow> Inl e
                | Inr c \<Rightarrow> Inr \<lparr>as_call = c, base_call = base, diff = df\<rparr>)))"

record overridden_dict =
  od_title :: string
  od_diff :: diff
  od_description :: "string option"
  od_response :: "response_dict option"

definition OverriddenCall_to_dict :: "overridden_call \<Rightarrow> error + overridden_dict" where
  "OverriddenCall_to_dict oc =
     (case (case response (as_call oc) of
              None \<Rightarrow> Inr None
            | Some r \<Rightarrow> map_sum id Some (Response_to_dict r)) of
        Inl e \<Rightarrow> Inl e
      | Inr rd \<Rightarrow>
          Inr \<lparr>od_title = title (as_call oc), od_diff = diff oc,
               od_description = description (as_call oc), od_response = rd\<rparr>)"

definition OverriddenCall_from_dict :: "call \<Rightarrow> overridden_dict \<Rightarrow> error + overridden_call" where
  \<comment> \<open>\<open>OverriddenCall(base_call, **d)\<close>: the keys \<open>title\<close>, \<open>description\<close>, \<open>response\<close> and
      \<open>url_parameters\<close> of \<open>d\<close> bind the named arguments, the other keys are \<open>**diff\<close>\<close>
  "OverriddenCall_from_dict base d =
     OverriddenCall_init base (od_title d) (od_description d)
       (map_option ResponseDict (od_response d)) (d_url_parameters (od_diff d))
       (diff_kwargs.truncate (od_diff d))"

section \<open>Story\<close>

record story =
  story_base_call :: call
  calls :: "overridden_call list"

definition Story_init :: "call \<Rightarrow> overridden_call list option \<Rightarrow> story" where
  "Story_init base cs = \<lparr>story_base_call = base, calls = (case cs of None \<Rightarrow> [] | Some l \<Rightarrow> l)\<rparr>"

record story_dict =
  sd_base_call :: "call_dict option"
  sd_calls :: "overridden_dict list option"

fun sequence :: "(error + 'a) list \<Rightarrow> error + 'a list" where
  \<comment> \<open>a list comprehension whose elements may raise: the first error ends it\<close>
  "sequence [] = Inr []"
| "sequence (Inl e # xs) = Inl e"
| "sequence (Inr x # xs) = map_sum id ((#) x) (sequence xs)"

definition Story_to_dict :: "story \<Rightarrow> error + story_dict" where
  "Story_to_dict s =
     (case Call_to_dict (story_base_call s) of
        Inl e \<Rightarrow> Inl e
      | Inr b \<Rightarrow>
          (case sequence (map OverriddenCall_to_dict (calls s)) of
             Inl e \<Rightarrow> Inl e
           | Inr cs \<Rightarrow> Inr \<lparr>sd_base_call = Some b, sd_calls = Some cs\<rparr>))"

definition Story_from_dict :: "story_dict \<Rightarrow> error + story" where
  "Story_from_dict data =
     (case sd_base_call data of
        None \<Rightarrow> Inl (KeyError ''base_call'')
      | Some b \<Rightarrow>
          (case Call_from_dict b of
             Inl e \<Rightarrow> Inl e
           | Inr base \<Rightarrow>
               (case sd_calls data of
                  None \<Rightarrow> Inr (Story_init base None)
                | Some ds \<Rightarrow>
                    if ds = [] then Inr (Story_init base None)
                    else map_sum id (\<lambda>cs. Story_init base (Some cs))
                           (sequence (map (OverriddenCall_from_dict base) ds)))))"

section \<open>Invocation\<close>

text \<open>
  \<open>Call.invoke\<close> appends to a list, so here the header lists are objects in a store,
  addressed by their position in it, and the attribute \<open>headers\<close> of a Call holds an
  address. A new list goes to the end of the store. The test client behind
  \<open>TestApp(application)._gen_request\<close> and \<open>urllib.parse.urlencode\<close> are parameters: the
  client is a function from the request it is given to what it raises or returns.
\<close>

type_synonym header_store = "(string \<times> string) list list"

record call_object =
  o_title :: string
  o_url :: string
  o_verb :: string
  o_url_parameters :: dict
  o_form :: "dict option"
  o_content_type :: "string option"
  o_headers :: "nat option"
  o_as :: "string option"
  o_query :: "dict option"
  o_description :: "string option"
  o_extra_environ :: "dict option"
  o_response :: "response option"

definition load :: "header_store \<Rightarrow> call_object \<Rightarrow> call" where
  \<comment> \<open>the Call that the object is in a given store\<close>
  "load h self =
     \<lparr>title = o_title self, url = o_url self, verb = o_verb self,
      url_parameters = o_url_parameters self, form = o_form self,
      content_type = o_content_type self,
      headers = map_option (\<lambda>a. h ! a) (o_headers self),
      as_label = o_as self, query = o_query self, description = o_description self,
      extra_environ = o_extra_environ self, response = o_response self\<rparr>"

record request =
  rq_verb :: string
  rq_url :: string
  rq_expect_errors :: bool
  rq_extra_environ :: "dict option"
  rq_headers :: "(string \<times> string) list"
  rq_params :: "dict option"

record transport_response =
  tr_status :: string
  tr_headers :: "(string \<times> string) list"
  tr_body :: bytes

definition lower :: "string \<Rightarrow> string" where
  \<comment> \<open>\<open>str.lower()\<close> on the code points below 256\<close>
  "lower s = map (\<lambda>c. let n = (of_char c :: nat) in
     if (65 \<le> n \<and> n \<le> 90) \<or> (192 \<le> n \<and> n \<le> 222 \<and> n \<noteq> 215) then char_of (n + 32)
     else c) s"

definition headers_or_new :: "header_store \<Rightarrow> nat option \<Rightarrow> header_store \<times> nat" where
  \<comment> \<open>\<open>self.headers or []\<close>: the list of the Call when it has one that is not empty, a new
      empty list otherwise\<close>
  "headers_or_new h r = (case r of
       None \<Rightarrow> (h @ [[]], length h)
     | Some a \<Rightarrow> if h ! a \<noteq> [] then (h, a) else (h @ [[]], length h))"

definition replace_content_type ::
  "string option \<Rightarrow> header_store \<times> nat \<Rightarrow> header_store \<times> nat" where
  \<comment> \<open>lines 130 to 132: the comprehension builds a new list, and \<open>append\<close> changes the list
      that \<open>headers\<close> names then\<close>
  "replace_content_type ct ha = (case ct of
       None \<Rightarrow> ha
     | Some t \<Rightarrow>
         if t = [] then ha
         else (let (h, a) = ha;
                   h' = h @ [filter (\<lambda>x. lower (fst x) \<noteq> ''content-type'') (h ! a)];
                   b = length h
               in (h'[b := h' ! b @ [(''Content-Type'', t)]], b)))"

definition invoke ::
  "(dict \<Rightarrow> string) \<Rightarrow> (request \<Rightarrow> error + transport_response) \<Rightarrow>
   header_store \<Rightarrow> call_object \<Rightarrow> (header_store \<times> call_object) \<times> (error + response)" where
  \<comment> \<open>the store and the Call after the invocation, and what the method raises or returns\<close>
  "invoke urlencode application h self =
     (let url' = (case o_query self of
              None \<Rightarrow> o_url self
            | Some q \<Rightarrow> if q \<noteq> [] then o_url self @ ''?'' @ urlencode q else o_url self);
          (h', a) = replace_content_type (o_content_type self)
                      (headers_or_new h (o_headers self));
          request_params =
            \<lparr>rq_verb = o_verb self, rq_url = url', rq_expect_errors = True,
             rq_extra_environ = o_extra_environ self, rq_headers = h' ! a,
             rq_params = (case o_form self of
                 None \<Rightarrow> None
               | Some f \<Rightarrow> if f \<noteq> [] then Some f else None)\<rparr>
      in ((h', self),
          (case application request_params of
             Inl e \<Rightarrow> Inl e
           | Inr r \<Rightarrow>
               Response_init (tr_status r) (Some (map (\<lambda>(k, v). HPair k v) (tr_headers r)))
                 (Some (BodyBytes (tr_body r))))))"

section \<open>Compositions that the properties speak of\<close>

definition no_diff :: diff_kwargs where
  \<comment> \<open>an empty \<open>**diff\<close>\<close>
  "no_diff = \<lparr>d_url = None, d_verb = None, d_form = None, d_content_type = None,
     d_headers = None, d_as = None, d_query = None, d_extra_environ = None\<rparr>"

definition Call_round_trip :: "call \<Rightarrow> error + call_dict" where
  \<comment> \<open>\<open>Call(**c.to_dict()).to_dict()\<close>\<close>
  "Call_round_trip c =
     (case Call_to_dict c of
        Inl e \<Rightarrow> Inl e
      | Inr d \<Rightarrow> (case Call_from_dict d of Inl e \<Rightarrow> Inl e | Inr c' \<Rightarrow> Call_to_dict c'))"

definition Story_round_trip :: "story \<Rightarrow> error + story_dict" where
  \<comment> \<open>\<open>Story.from_dict(s.to_dict()).to_dict()\<close>\<close>
  "Story_round_trip s =
     (case Story_to_dict s of
        Inl e \<Rightarrow> Inl e
      | Inr d \<Rightarrow> (case Story_from_dict d of Inl e \<Rightarrow> Inl e | Inr s' \<Rightarrow> Story_to_dict s'))"

section \<open>The status line of a Response\<close>

lemma split_char_not_Nil: "split_char sep s \<noteq> []"
  by (induction s) (auto split: list.splits)

lemma hd_split_char: "hd (split_char sep s) = takeWhile (\<lambda>c. c \<noteq> sep) s"
  by (induction s) (auto split: list.splits simp: split_char_not_Nil)

lemma tl_split_char:
  "sep \<in> set s \<Longrightarrow>
   tl (split_char sep s) = split_char sep (drop (Suc (length (takeWhile (\<lambda>c. c \<noteq> sep) s))) s)"
  by (induction s) (auto split: list.splits simp: split_char_not_Nil)

lemma join_split_char: "join [sep] (split_char sep s) = s"
proof (induction s)
  case Nil
  show ?case by simp
next
  case (Cons c cs)
  obtain p ps where ps: "split_char sep cs = p # ps"
    using split_char_not_Nil [of sep cs] by (cases "split_char sep cs") auto
  show ?case
  proof (cases "c = sep")
    case True
    with Cons ps show ?thesis by simp
  next
    case False
    with Cons ps show ?thesis by (cases ps) auto
  qed
qed

lemma split_char_decompose:
  assumes "sep \<in> set s"
  shows "\<exists>ps. split_char sep s = takeWhile (\<lambda>c. c \<noteq> sep) s # ps
     \<and> join [sep] ps = drop (Suc (length (takeWhile (\<lambda>c. c \<noteq> sep) s))) s"
proof -
  obtain p ps where ps: "split_char sep s = p # ps"
    using split_char_not_Nil [of sep s] by (cases "split_char sep s") auto
  from ps have p: "p = takeWhile (\<lambda>c. c \<noteq> sep) s"
    using hd_split_char [of sep s] by simp
  from ps have "ps = split_char sep (drop (Suc (length (takeWhile (\<lambda>c. c \<noteq> sep) s))) s)"
    using tl_split_char [OF assms] by simp
  then have "join [sep] ps = drop (Suc (length (takeWhile (\<lambda>c. c \<noteq> sep) s))) s"
    by (simp only: join_split_char)
  with ps p show ?thesis by simp
qed

lemma parse_status_space:
  assumes "CHR '' '' \<in> set st"
  shows "parse_status st =
     (case py_int (takeWhile (\<lambda>c. c \<noteq> CHR '' '') st) of
        None \<Rightarrow> Inl ValueError
      | Some n \<Rightarrow> Inr (n, Some (drop (Suc (length (takeWhile (\<lambda>c. c \<noteq> CHR '' '') st))) st)))"
proof -
  from split_char_decompose [OF assms] obtain ps
    where ps: "split_char CHR '' '' st = takeWhile (\<lambda>c. c \<noteq> CHR '' '') st # ps"
      and j: "join [CHR '' ''] ps = drop (Suc (length (takeWhile (\<lambda>c. c \<noteq> CHR '' '') st))) st"
    by blast
  have "parse_status st =
     (case py_int (takeWhile (\<lambda>c. c \<noteq> CHR '' '') st) of
        None \<Rightarrow> Inl ValueError
      | Some n \<Rightarrow> Inr (n, Some (join [CHR '' ''] ps)))"
    unfolding parse_status_def using assms by (simp only: ps if_True list.case)
  then show ?thesis by (simp only: j)
qed

lemma parse_status_no_space:
  assumes "CHR '' '' \<notin> set st"
  shows "parse_status st = (case py_int st of None \<Rightarrow> Inl ValueError | Some n \<Rightarrow> Inr (n, None))"
  unfolding parse_status_def using assms by (simp only: if_False)

lemma takeWhile_absent: "x \<notin> set s \<Longrightarrow> takeWhile (\<lambda>c. c \<noteq> x) s = s"
  by (induction s) auto


lemma parse_status_Inr:
  assumes "parse_status st = Inr (code, tx)"
  shows "py_int (takeWhile (\<lambda>c. c \<noteq> CHR '' '') st) = Some code
     \<and> tx = (if CHR '' '' \<in> set st
             then Some (drop (Suc (length (takeWhile (\<lambda>c. c \<noteq> CHR '' '') st))) st)
             else None)"
proof (cases "CHR '' '' \<in> set st")
  case True
  from assms show ?thesis
    unfolding parse_status_space [OF True] using True
    by (cases "py_int (takeWhile (\<lambda>c. c \<noteq> CHR '' '') st)") simp_all
next
  case False
  from assms show ?thesis
    unfolding parse_status_no_space [OF False] takeWhile_absent [OF False] using False
    by (cases "py_int st") simp_all
qed

lemma utf8_encode_error: "utf8_encode t = Inl e \<Longrightarrow> e = UnicodeEncodeError"
  by (induction t) (auto split: if_splits sum.splits)

lemma encode_body_error: "encode_body b = Inl e \<Longrightarrow> e = UnicodeEncodeError"
proof (induction b rule: encode_body.induct)
  case 1
  then show ?case by simp
next
  case (2 b)
  then show ?case by simp
next
  case (3 t)
  then show ?case
    by (cases "utf8_encode t") (auto dest: utf8_encode_error)
qed

lemma Response_init_parse_status:
  assumes "Response_init st hs b = Inr r"
  shows "parse_status st = Inr (status_code r, status_text r)"
proof (cases "encode_body b")
  case (Inl e)
  with assms show ?thesis by (simp add: Response_init_def)
next
  case b': (Inr b')
  show ?thesis
  proof (cases "parse_status st")
    case (Inl e)
    with assms b' show ?thesis by (simp add: Response_init_def)
  next
    case (Inr p)
    obtain code tx where p: "p = (code, tx)" by (cases p)
    show ?thesis
    proof (cases "normalize_headers hs")
      case None
      with assms b' Inr p show ?thesis by (simp add: Response_init_def)
    next
      case (Some hl)
      with assms b' Inr p show ?thesis by (auto simp: Response_init_def)
    qed
  qed
qed

text \<open>
  C8. The first token of a status line is the line up to its first space, the whole line
  when it has no space. A Response cannot be built from a status line whose first token is
  not an integer, so not from a line with no space whose only token is not an integer: the
  construction ends in an error of the class of \<open>ValueError\<close>. A status line whose first
  token is an integer is accepted: when the body can be encoded and the headers are given,
  the Response is built, its \<open>status_code\<close> is the integer that the first token denotes and
  its \<open>status_text\<close> is what follows the first space, or is absent when the line has no
  space. Conversely, every Response that is built has these two values.
\<close>

theorem C8_status_line:
  "(CHR '' '' \<notin> set st \<and> py_int st = None \<longrightarrow>
      (\<exists>e. Response_init st hs b = Inl e \<and> is_ValueError e))
   \<and> (py_int (takeWhile (\<lambda>c. c \<noteq> CHR '' '') st) = None \<longrightarrow>
      (\<exists>e. Response_init st hs b = Inl e \<and> is_ValueError e))
   \<and> (py_int (takeWhile (\<lambda>c. c \<noteq> CHR '' '') st) = Some n
        \<and> encode_body b = Inr b' \<and> normalize_headers hs = Some hl \<longrightarrow>
      Response_init st hs b =
        Inr \<lparr>status = st, response_headers = hl, body = b', status_code = n,
             status_text =
               (if CHR '' '' \<in> set st
                then Some (drop (Suc (length (takeWhile (\<lambda>c. c \<noteq> CHR '' '') st))) st)
                else None),
             response_content_type = fst (scan_content_type hl),
             encoding = snd (scan_content_type hl)\<rparr>)
   \<and> (Response_init st hs b = Inr r \<longrightarrow>
        py_int (takeWhile (\<lambda>c. c \<noteq> CHR '' '') st) = Some (status_code r)
        \<and> status_text r =
            (if CHR '' '' \<in> set st
             then Some (drop (Suc (length (takeWhile (\<lambda>c. c \<noteq> CHR '' '') st))) st)
             else None))"
proof -
  have token: "parse_status st =
     (case py_int (takeWhile (\<lambda>c. c \<noteq> CHR '' '') st) of
        None \<Rightarrow> Inl ValueError
      | Some n \<Rightarrow> Inr (n,
          if CHR '' '' \<in> set st
          then Some (drop (Suc (length (takeWhile (\<lambda>c. c \<noteq> CHR '' '') st))) st)
          else None))"
  proof (cases "CHR '' '' \<in> set st")
    case True
    then show ?thesis
      by (simp only: parse_status_space [OF True] if_True)
  next
    case False
    then show ?thesis
      by (simp only: parse_status_no_space [OF False] takeWhile_absent [OF False] if_False)
  qed
  have rejected: "\<exists>e. Response_init st hs b = Inl e \<and> is_ValueError e"
    if bad: "py_int (takeWhile (\<lambda>c. c \<noteq> CHR '' '') st) = None"
  proof -
    from token bad have ps: "parse_status st = Inl ValueError"
      by simp
    show ?thesis
    proof (cases "encode_body b")
      case (Inl e)
      with encode_body_error [OF Inl] show ?thesis
        by (simp add: Response_init_def)
    next
      case (Inr b')
      with ps show ?thesis
        by (simp add: Response_init_def)
    qed
  qed
  have malformed: "\<exists>e. Response_init st hs b = Inl e \<and> is_ValueError e"
    if bad: "CHR '' '' \<notin> set st \<and> py_int st = None"
  proof -
    from bad have "py_int (takeWhile (\<lambda>c. c \<noteq> CHR '' '') st) = None"
      by (simp add: takeWhile_absent)
    then show ?thesis by (rule rejected)
  qed
  have accepted: "Response_init st hs b =
        Inr \<lparr>status = st, response_headers = hl, body = b', status_code = n,
             status_text =
               (if CHR '' '' \<in> set st
                then Some (drop (Suc (length (takeWhile (\<lambda>c. c \<noteq> CHR '' '') st))) st)
                else None),
             response_content_type = fst (scan_content_type hl),
             encoding = snd (scan_content_type hl)\<rparr>"
    if good: "py_int (takeWhile (\<lambda>c. c \<noteq> CHR '' '') st) = Some n
        \<and> encode_body b = Inr b' \<and> normalize_headers hs = Some hl"
  proof -
    from token good have ps: "parse_status st =
        Inr (n, if CHR '' '' \<in> set st
          then Some (drop (Suc (length (takeWhile (\<lambda>c. c \<noteq> CHR '' '') st))) st)
          else None)"
      by simp
    from good have eb: "encode_body b = Inr b'" and nh: "normalize_headers hs = Some hl"
      by simp_all
    show ?thesis
      unfolding Response_init_def by (simp only: eb ps nh sum.case prod.case option.case)
  qed
  have built: "py_int (takeWhile (\<lambda>c. c \<noteq> CHR '' '') st) = Some (status_code r)
        \<and> status_text r =
            (if CHR '' '' \<in> set st
             then Some (drop (Suc (length (takeWhile (\<lambda>c. c \<noteq> CHR '' '') st))) st)
             else None)"
    if ok: "Response_init st hs b = Inr r"
    by (rule parse_status_Inr [OF Response_init_parse_status [OF ok]])
  show ?thesis
  proof (intro conjI impI)
    assume "CHR '' '' \<notin> set st \<and> py_int st = None"
    then show "\<exists>e. Response_init st hs b = Inl e \<and> is_ValueError e"
      by (rule malformed)
  next
    assume "py_int (takeWhile (\<lambda>c. c \<noteq> CHR '' '') st) = None"
    then show "\<exists>e. Response_init st hs b = Inl e \<and> is_ValueError e"
      by (rule rejected)
  next
    assume "py_int (takeWhile (\<lambda>c. c \<noteq> CHR '' '') st) = Some n
        \<and> encode_body b = Inr b' \<and> normalize_headers hs = Some hl"
    then show "Response_init st hs b =
        Inr \<lparr>status = st, response_headers = hl, body = b', status_code = n,
             status_text =
               (if CHR '' '' \<in> set st
                then Some (drop (Suc (length (takeWhile (\<lambda>c. c \<noteq> CHR '' '') st))) st)
                else None),
             response_content_type = fst (scan_content_type hl),
             encoding = snd (scan_content_type hl)\<rparr>"
      by (rule accepted)
  next
    assume ok: "Response_init st hs b = Inr r"
    from built [OF ok]
    show "py_int (takeWhile (\<lambda>c. c \<noteq> CHR '' '') st) = Some (status_code r)"
      by (rule conjunct1)
    from built [OF ok]
    show "status_text r =
            (if CHR '' '' \<in> set st
             then Some (drop (Suc (length (takeWhile (\<lambda>c. c \<noteq> CHR '' '') st))) st)
             else None)"
      by (rule conjunct2)
  qed
qed

theorem C8_status_line_witness:
  "(CHR '' '' \<notin> set ''OK'' \<and> py_int ''OK'' = None)
   \<and> (\<exists>e. Response_init ''OK'' (Some []) None = Inl e \<and> is_ValueError e)
   \<and> py_int (takeWhile (\<lambda>c. c \<noteq> CHR '' '') ''Not Found 404'') = None
   \<and> (\<exists>e. Response_init ''Not Found 404'' (Some []) None = Inl e \<and> is_ValueError e)
   \<and> (py_int (takeWhile (\<lambda>c. c \<noteq> CHR '' '') ''404 Not Found'') = Some 404
      \<and> encode_body (Some (BodyBytes ''gone'')) = Inr (Some ''gone'')
      \<and> normalize_headers (Some [HPair ''X'' ''y'']) = Some [(''X'', ''y'')])
   \<and> Response_init ''404 Not Found'' (Some [HPair ''X'' ''y'']) (Some (BodyBytes ''gone'')) =
       Inr \<lparr>status = ''404 Not Found'', response_headers = [(''X'', ''y'')],
            body = Some ''gone'', status_code = 404, status_text = Some ''Not Found'',
            response_content_type = None, encoding = None\<rparr>
   \<and> Response_init ''200'' (Some []) None =
       Inr \<lparr>status = ''200'', response_headers = [], body = None, status_code = 200,
            status_text = None, response_content_type = None, encoding = None\<rparr>
   \<and> Response_init ''200 OK'' (Some []) None =
       Inr \<lparr>status = ''200 OK'', response_headers = [], body = None, status_code = 200,
            status_text = Some ''OK'', response_content_type = None, encoding = None\<rparr>
   \<and> py_int (takeWhile (\<lambda>c. c \<noteq> CHR '' '') ''200 OK'') = Some 200
   \<and> drop (Suc (length (takeWhile (\<lambda>c. c \<noteq> CHR '' '') ''200 OK''))) ''200 OK'' = ''OK''"
proof -
  have a1: "CHR '' '' \<notin> set ''OK''"
    by code_simp
  have a2: "py_int ''OK'' = None"
    by code_simp
  note a = conjI [OF a1 a2]
  note malformed = C8_status_line [of "''OK''" "Some []" None, THEN conjunct1, THEN mp, OF a]
  have b: "py_int (takeWhile (\<lambda>c. c \<noteq> CHR '' '') ''Not Found 404'') = None"
    by code_simp
  note rejected = C8_status_line [of "''Not Found 404''" "Some []" None,
      THEN conjunct2, THEN conjunct1, THEN mp, OF b]
  have c1: "py_int (takeWhile (\<lambda>c. c \<noteq> CHR '' '') ''404 Not Found'') = Some 404"
    by code_simp
  have c2: "encode_body (Some (BodyBytes ''gone'')) = Inr (Some ''gone'')"
    by code_simp
  have c3: "normalize_headers (Some [HPair ''X'' ''y'']) = Some [(''X'', ''y'')]"
    by code_simp
  note c = conjI [OF c1 conjI [OF c2 c3]]
  have c4: "CHR '' '' \<in> set ''404 Not Found''"
    by code_simp
  have c5: "drop (Suc (length (takeWhile (\<lambda>c. c \<noteq> CHR '' '') ''404 Not Found'')))
      ''404 Not Found'' = ''Not Found''"
    by code_simp
  have c6: "scan_content_type [(''X'', ''y'')] = (None, None)"
    by code_simp
  from C8_status_line [of "''404 Not Found''" "Some [HPair ''X'' ''y'']"
      "Some (BodyBytes ''gone'')" 404 "Some ''gone''" "[(''X'', ''y'')]",
      THEN conjunct2, THEN conjunct2, THEN conjunct1, THEN mp, OF c]
  have accepted: "Response_init ''404 Not Found'' (Some [HPair ''X'' ''y''])
        (Some (BodyBytes ''gone'')) =
       Inr \<lparr>status = ''404 Not Found'', response_headers = [(''X'', ''y'')],
            body = Some ''gone'', status_code = 404, status_text = Some ''Not Found'',
            response_content_type = None, encoding = None\<rparr>"
    by (simp only: c4 c5 c6 if_True fst_conv snd_conv)
  have d1: "py_int (takeWhile (\<lambda>c. c \<noteq> CHR '' '') ''200'') = Some 200"
    by code_simp
  have d2: "encode_body None = Inr None"
    by code_simp
  have d3: "normalize_headers (Some []) = Some []"
    by code_simp
  note d = conjI [OF d1 conjI [OF d2 d3]]
  have d4: "CHR '' '' \<notin> set ''200''"
    by code_simp
  have d6: "scan_content_type [] = (None, None)"
    by code_simp
  from C8_status_line [of "''200''" "Some []" None 200 None "[]",
      THEN conjunct2, THEN conjunct2, THEN conjunct1, THEN mp, OF d]
  have bare: "Response_init ''200'' (Some []) None =
       Inr \<lparr>status = ''200'', response_headers = [], body = None, status_code = 200,
            status_text = None, response_content_type = None, encoding = None\<rparr>"
    using d4 by (simp only: d6 if_False fst_conv snd_conv)
  have e: "Response_init ''200 OK'' (Some []) None =
       Inr \<lparr>status = ''200 OK'', response_headers = [], body = None, status_code = 200,
            status_text = Some ''OK'', response_content_type = None, encoding = None\<rparr>"
    by code_simp
  have f: "drop (Suc (length (takeWhile (\<lambda>c. c \<noteq> CHR '' '') ''200 OK''))) ''200 OK'' = ''OK''"
    by code_simp
  note built = C8_status_line [of "''200 OK''" "Some []" None, THEN conjunct2, THEN conjunct2,
      THEN conjunct2, THEN mp, OF e]
  from built have g: "py_int (takeWhile (\<lambda>c. c \<noteq> CHR '' '') ''200 OK'') = Some 200"
    by (simp only: response.select_convs)
  from a1 a2 malformed b rejected c1 c2 c3 accepted bare e g f show ?thesis
    by (intro conjI)
qed

section \<open>Explicit url\_parameters of an OverriddenCall\<close>

lemma extract_diff_url_no_url:
  "d_url kw = None \<Longrightarrow> d_url_parameters (extract_diff_url kw) = None"
  by (simp add: extract_diff_url_def diff_kwargs.defs)

text \<open>
  C10. An OverriddenCall built with a non-empty explicit \<open>url_parameters\<close> argument and a
  diff without the key \<open>url\<close> raises \<open>KeyError\<close>: the constructor updates
  \<open>diff['url_parameters']\<close>, a key that only the extraction from the diff's \<open>url\<close> creates.
\<close>

theorem C10_explicit_url_parameters_KeyError:
  assumes "url_parameters' \<noteq> []" and "d_url kw = None"
  shows "OverriddenCall_init base title' description' response' (Some url_parameters') kw
         = Inl (KeyError ''url_parameters'')"
proof -
  from assms have "update_diff_url_parameters (Some url_parameters') (extract_diff_url kw)
      = Inl (KeyError ''url_parameters'')"
    by (simp add: update_diff_url_parameters_def extract_diff_url_no_url)
  then show ?thesis
    by (simp add: OverriddenCall_init_def)
qed

theorem C10_explicit_url_parameters_KeyError_witness:
  "[(''id'', ''7'')] \<noteq> ([] :: dict) \<and> d_url (no_diff\<lparr>d_verb := Some ''POST''\<rparr>) = None
   \<and> OverriddenCall_init
        \<lparr>title = ''list'', url = ''/items'', verb = ''GET'', url_parameters = [],
         form = None, content_type = None, headers = None, as_label = None, query = None,
         description = None, extra_environ = None, response = None\<rparr>
        ''create'' None None (Some [(''id'', ''7'')]) (no_diff\<lparr>d_verb := Some ''POST''\<rparr>)
       = Inl (KeyError ''url_parameters'')"
proof -
  have a: "[(''id'', ''7'')] \<noteq> ([] :: dict)" by simp
  have b: "d_url (no_diff\<lparr>d_verb := Some ''POST''\<rparr>) = None" by (simp add: no_diff_def)
  from a b C10_explicit_url_parameters_KeyError [OF a b] show ?thesis
    by (intro conjI)
qed

text \<open>
  C5. The base Call of the end-to-end example is built with url \<open>/users/:user_id\<close> and
  url\_parameters \<open>{user_id: 1}\<close>. The OverriddenCall of the example, with title
  \<open>get user 2\<close> and url\_parameters \<open>{user_id: 2}\<close> on that base, is not built: the
  constructor raises \<open>KeyError\<close>, where the example expects url \<open>/users/:user_id\<close>,
  url\_parameters \<open>{user_id: 2}\<close> and the verb of the base.
\<close>

theorem C5_override_url_parameters_KeyError:
  "Call_init ''get user'' ''/users/user_id: 1'' ''GET'' None None None None None None None None None
     = Inr \<lparr>title = ''get user'', url = ''/users/:user_id'', verb = ''GET'',
            url_parameters = [(''user_id'', ''1'')], form = None, content_type = None,
            headers = None, as_label = None, query = None, description = None,
            extra_environ = None, response = None\<rparr>
   \<and> OverriddenCall_init
        \<lparr>title = ''get user'', url = ''/users/:user_id'', verb = ''GET'',
         url_parameters = [(''user_id'', ''1'')], form = None, content_type = None,
         headers = None, as_label = None, query = None, description = None,
         extra_environ = None, response = None\<rparr>
        ''get user 2'' None None (Some [(''user_id'', ''2'')]) no_diff
       = Inl (KeyError ''url_parameters'')"
proof (rule conjI)
  show "Call_init ''get user'' ''/users/user_id: 1'' ''GET'' None None None None None None None None None
     = Inr \<lparr>title = ''get user'', url = ''/users/:user_id'', verb = ''GET'',
            url_parameters = [(''user_id'', ''1'')], form = None, content_type = None,
            headers = None, as_label = None, query = None, description = None,
            extra_environ = None, response = None\<rparr>"
    by code_simp
  show "OverriddenCall_init
        \<lparr>title = ''get user'', url = ''/users/:user_id'', verb = ''GET'',
         url_parameters = [(''user_id'', ''1'')], form = None, content_type = None,
         headers = None, as_label = None, query = None, description = None,
         extra_environ = None, response = None\<rparr>
        ''get user 2'' None None (Some [(''user_id'', ''2'')]) no_diff
       = Inl (KeyError ''url_parameters'')"
    by code_simp
qed

section \<open>Parameter syntax left in a rewritten URL\<close>

text \<open>
  What holds of every URL: without a match the URL comes back as it is, with an empty
  mapping; and the mapping returned has the keys that \<open>findall\<close> finds, each with the value
  of its last match.
\<close>

lemma findall_no_match:
  "\<not> search_url_parameter u \<Longrightarrow> findall_url_parameter u = []"
proof (induction u)
  case Nil
  show ?case by simp
next
  case (Cons c cs)
  then show ?case
    by (cases "match_url_parameter (c # cs)") auto
qed

lemma extract_url_parameters_no_match:
  "\<not> search_url_parameter u \<Longrightarrow> extract_url_parameters u = (u, [])"
  by (simp add: extract_url_parameters_def)

lemma fold_extract_snd:
  "snd (fold (\<lambda>(k, v) (x, ps). (sub_key_value k x, AList.update k v ps)) kvs (w, ps0))
     = fold (\<lambda>(k, v). AList.update k v) kvs ps0"
  by (induction kvs arbitrary: w ps0) auto

lemma map_of_fold_update:
  "map_of (fold (\<lambda>(k, v). AList.update k v) kvs ps) = map_of ps ++ map_of (rev kvs)"
proof (induction kvs arbitrary: ps)
  case Nil
  show ?case by simp
next
  case (Cons kv kvs)
  obtain k v where kv: "kv = (k, v)" by (cases kv)
  have "map_of (AList.update k v ps) ++ map_of (rev kvs)
      = map_of ps ++ ([k \<mapsto> v] ++ map_of (rev kvs))"
    by (rule ext) (auto simp: map_add_def AList.update_conv' split: option.splits)
  with Cons show ?case
    by (simp add: kv)
qed

lemma extract_url_parameters_mapping:
  "map_of (snd (extract_url_parameters u)) = map_of (rev (findall_url_parameter u))"
proof (cases "search_url_parameter u")
  case True
  then show ?thesis
    by (simp add: extract_url_parameters_def fold_extract_snd map_of_fold_update)
next
  case False
  then show ?thesis
    by (simp add: extract_url_parameters_no_match findall_no_match)
qed

text \<open>
  C2. For the URL \<open>/k: 2/ak: 1\<close> the two parameters are found, but the substitution for
  the key \<open>k\<close> also rewrites the end of \<open>ak: 1\<close>, so the URL returned is \<open>/:k/a:k\<close>: its
  segment \<open>/a:k\<close> is still parameter syntax, which the pattern matches.
\<close>

theorem C2_residual_parameter_syntax:
  "findall_url_parameter ''/k: 2/ak: 1'' = [(''k'', ''2''), (''ak'', ''1'')]
   \<and> extract_url_parameters ''/k: 2/ak: 1'' = (''/:k/a:k'', [(''k'', ''2''), (''ak'', ''1'')])
   \<and> match_url_parameter ''/a:k'' = Some (''a'', ''k'', 4)
   \<and> search_url_parameter ''/:k/a:k''"
proof (intro conjI)
  show "findall_url_parameter ''/k: 2/ak: 1'' = [(''k'', ''2''), (''ak'', ''1'')]"
    by code_simp
  show "extract_url_parameters ''/k: 2/ak: 1'' = (''/:k/a:k'', [(''k'', ''2''), (''ak'', ''1'')])"
    by code_simp
  show "match_url_parameter ''/a:k'' = Some (''a'', ''k'', 4)"
    by code_simp
  show "search_url_parameter ''/:k/a:k''"
    by code_simp
qed

section \<open>Round trips through the serialized form\<close>

text \<open>
  C3. The Call built from the URL \<open>/k: 2/ak: 1\<close> has the url \<open>/:k/a:k\<close>. Its serialized
  form, made a Call again, has the segment \<open>/a:k\<close> extracted as one more parameter, so
  the second serialized form has another url and another parameter mapping than the first.
  A Call whose response has no header is serialized without the key \<open>headers\<close> in the
  response, and its serialized form cannot be made a Call again: \<open>Response\<close> needs the
  argument.
\<close>

theorem C3_round_trip_differs:
  "Call_init ''t'' ''/k: 2/ak: 1'' ''GET'' None None None None None None None None None
     = Inr \<lparr>title = ''t'', url = ''/:k/a:k'', verb = ''GET'',
            url_parameters = [(''k'', ''2''), (''ak'', ''1'')], form = None,
            content_type = None, headers = None, as_label = None, query = None,
            description = None, extra_environ = None, response = None\<rparr>
   \<and> Call_to_dict
        \<lparr>title = ''t'', url = ''/:k/a:k'', verb = ''GET'',
         url_parameters = [(''k'', ''2''), (''ak'', ''1'')], form = None,
         content_type = None, headers = None, as_label = None, query = None,
         description = None, extra_environ = None, response = None\<rparr>
       = Inr \<lparr>cd_title = ''t'', cd_url = ''/:k/a:k'', cd_verb = ''GET'',
              cd_url_parameters = Some [(''k'', ''2''), (''ak'', ''1'')], cd_form = None,
              cd_headers = None, cd_as = None, cd_query = None, cd_description = None,
              cd_response = None\<rparr>
   \<and> Call_round_trip
        \<lparr>title = ''t'', url = ''/:k/a:k'', verb = ''GET'',
         url_parameters = [(''k'', ''2''), (''ak'', ''1'')], form = None,
         content_type = None, headers = None, as_label = None, query = None,
         description = None, extra_environ = None, response = None\<rparr>
       = Inr \<lparr>cd_title = ''t'', cd_url = ''/:k/:a'', cd_verb = ''GET'',
              cd_url_parameters = Some [(''a'', ''k''), (''k'', ''2''), (''ak'', ''1'')],
              cd_form = None, cd_headers = None, cd_as = None, cd_query = None,
              cd_description = None, cd_response = None\<rparr>
   \<and> Response_init ''200 OK'' (Some []) None
       = Inr \<lparr>status = ''200 OK'', response_headers = [], body = None, status_code = 200,
              status_text = Some ''OK'', response_content_type = None, encoding = None\<rparr>
   \<and> Call_to_dict
        \<lparr>title = ''t'', url = ''/'', verb = ''GET'', url_parameters = [], form = None,
         content_type = None, headers = None, as_label = None, query = None,
         description = None, extra_environ = None,
         response = Some \<lparr>status = ''200 OK'', response_headers = [], body = None,
           status_code = 200, status_text = Some ''OK'', response_content_type = None,
           encoding = None\<rparr>\<rparr>
       = Inr \<lparr>cd_title = ''t'', cd_url = ''/'', cd_verb = ''GET'',
              cd_url_parameters = Some [], cd_form = None, cd_headers = None, cd_as = None,
              cd_query = None, cd_description = None,
              cd_response = Some \<lparr>rd_status = ''200 OK'', rd_headers = None,
                rd_body = None\<rparr>\<rparr>
   \<and> Call_round_trip
        \<lparr>title = ''t'', url = ''/'', verb = ''GET'', url_parameters = [], form = None,
         content_type = None, headers = None, as_label = None, query = None,
         description = None, extra_environ = None,
         response = Some \<lparr>status = ''200 OK'', response_headers = [], body = None,
           status_code = 200, status_text = Some ''OK'', response_content_type = None,
           encoding = None\<rparr>\<rparr>
       = Inl TypeError"
proof (intro conjI)
  show "Call_init ''t'' ''/k: 2/ak: 1'' ''GET'' None None None None None None None None None
     = Inr \<lparr>title = ''t'', url = ''/:k/a:k'', verb = ''GET'',
            url_parameters = [(''k'', ''2''), (''ak'', ''1'')], form = None,
            content_type = None, headers = None, as_label = None, query = None,
            description = None, extra_environ = None, response = None\<rparr>"
    by code_simp
  show "Call_to_dict
        \<lparr>title = ''t'', url = ''/:k/a:k'', verb = ''GET'',
         url_parameters = [(''k'', ''2''), (''ak'', ''1'')], form = None,
         content_type = None, headers = None, as_label = None, query = None,
         description = None, extra_environ = None, response = None\<rparr>
       = Inr \<lparr>cd_title = ''t'', cd_url = ''/:k/a:k'', cd_verb = ''GET'',
              cd_url_parameters = Some [(''k'', ''2''), (''ak'', ''1'')], cd_form = None,
              cd_headers = None, cd_as = None, cd_query = None, cd_description = None,
              cd_response = None\<rparr>"
    by code_simp
  show "Call_round_trip
        \<lparr>title = ''t'', url = ''/:k/a:k'', verb = ''GET'',
         url_parameters = [(''k'', ''2''), (''ak'', ''1'')], form = None,
         content_type = None, headers = None, as_label = None, query = None,
         description = None, extra_environ = None, response = None\<rparr>
       = Inr \<lparr>cd_title = ''t'', cd_url = ''/:k/:a'', cd_verb = ''GET'',
              cd_url_parameters = Some [(''a'', ''k''), (''k'', ''2''), (''ak'', ''1'')],
              cd_form = None, cd_headers = None, cd_as = None, cd_query = None,
              cd_description = None, cd_response = None\<rparr>"
    by code_simp
  show "Response_init ''200 OK'' (Some []) None
       = Inr \<lparr>status = ''200 OK'', response_headers = [], body = None, status_code = 200,
              status_text = Some ''OK'', response_content_type = None, encoding = None\<rparr>"
    by code_simp
  show "Call_to_dict
        \<lparr>title = ''t'', url = ''/'', verb = ''GET'', url_parameters = [], form = None,
         content_type = None, headers = None, as_label = None, query = None,
         description = None, extra_environ = None,
         response = Some \<lparr>status = ''200 OK'', response_headers = [], body = None,
           status_code = 200, status_text = Some ''OK'', response_content_type = None,
           encoding = None\<rparr>\<rparr>
       = Inr \<lparr>cd_title = ''t'', cd_url = ''/'', cd_verb = ''GET'',
              cd_url_parameters = Some [], cd_form = None, cd_headers = None, cd_as = None,
              cd_query = None, cd_description = None,
              cd_response = Some \<lparr>rd_status = ''200 OK'', rd_headers = None,
                rd_body = None\<rparr>\<rparr>"
    by code_simp
  show "Call_round_trip
        \<lparr>title = ''t'', url = ''/'', verb = ''GET'', url_parameters = [], form = None,
         content_type = None, headers = None, as_label = None, query = None,
         description = None, extra_environ = None,
         response = Some \<lparr>status = ''200 OK'', response_headers = [], body = None,
           status_code = 200, status_text = Some ''OK'', response_content_type = None,
           encoding = None\<rparr>\<rparr>
       = Inl TypeError"
    by code_simp
qed

text \<open>A mapping without calls, or with an empty list of calls, is read as a Story without calls.\<close>

lemma Story_from_dict_no_calls:
  assumes "Call_from_dict b = Inr base" and "cs = None \<or> cs = Some []"
  shows "Story_from_dict \<lparr>sd_base_call = Some b, sd_calls = cs\<rparr>
         = Inr \<lparr>story_base_call = base, calls = []\<rparr>"
  using assms by (auto simp: Story_from_dict_def Story_init_def)

text \<open>
  C4. The Story of the Call built from the URL \<open>/k: 2/ak: 1\<close>, without overridden calls,
  is serialized with the url \<open>/:k/a:k\<close> in its base call; the Story read back from that
  form is serialized with the url \<open>/:k/:a\<close> and one more parameter. The empty list of
  calls is read back as an empty list.
\<close>

theorem C4_story_round_trip_differs:
  "Story_to_dict (Story_init
        \<lparr>title = ''t'', url = ''/:k/a:k'', verb = ''GET'',
         url_parameters = [(''k'', ''2''), (''ak'', ''1'')], form = None,
         content_type = None, headers = None, as_label = None, query = None,
         description = None, extra_environ = None, response = None\<rparr> None)
     = Inr \<lparr>sd_base_call = Some
              \<lparr>cd_title = ''t'', cd_url = ''/:k/a:k'', cd_verb = ''GET'',
               cd_url_parameters = Some [(''k'', ''2''), (''ak'', ''1'')], cd_form = None,
               cd_headers = None, cd_as = None, cd_query = None, cd_description = None,
               cd_response = None\<rparr>,
            sd_calls = Some []\<rparr>
   \<and> Story_round_trip (Story_init
        \<lparr>title = ''t'', url = ''/:k/a:k'', verb = ''GET'',
         url_parameters = [(''k'', ''2''), (''ak'', ''1'')], form = None,
         content_type = None, headers = None, as_label = None, query = None,
         description = None, extra_environ = None, response = None\<rparr> None)
     = Inr \<lparr>sd_base_call = Some
              \<lparr>cd_title = ''t'', cd_url = ''/:k/:a'', cd_verb = ''GET'',
               cd_url_parameters = Some [(''a'', ''k''), (''k'', ''2''), (''ak'', ''1'')],
               cd_form = None, cd_headers = None, cd_as = None, cd_query = None,
               cd_description = None, cd_response = None\<rparr>,
            sd_calls = Some []\<rparr>"
proof (intro conjI)
  show "Story_to_dict (Story_init
        \<lparr>title = ''t'', url = ''/:k/a:k'', verb = ''GET'',
         url_parameters = [(''k'', ''2''), (''ak'', ''1'')], form = None,
         content_type = None, headers = None, as_label = None, query = None,
         description = None, extra_environ = None, response = None\<rparr> None)
     = Inr \<lparr>sd_base_call = Some
              \<lparr>cd_title = ''t'', cd_url = ''/:k/a:k'', cd_verb = ''GET'',
               cd_url_parameters = Some [(''k'', ''2''), (''ak'', ''1'')], cd_form = None,
               cd_headers = None, cd_as = None, cd_query = None, cd_description = None,
               cd_response = None\<rparr>,
            sd_calls = Some []\<rparr>"
    by code_simp
  show "Story_round_trip (Story_init
        \<lparr>title = ''t'', url = ''/:k/a:k'', verb = ''GET'',
         url_parameters = [(''k'', ''2''), (''ak'', ''1'')], form = None,
         content_type = None, headers = None, as_label = None, query = None,
         description = None, extra_environ = None, response = None\<rparr> None)
     = Inr \<lparr>sd_base_call = Some
              \<lparr>cd_title = ''t'', cd_url = ''/:k/:a'', cd_verb = ''GET'',
               cd_url_parameters = Some [(''a'', ''k''), (''k'', ''2''), (''ak'', ''1'')],
               cd_form = None, cd_headers = None, cd_as = None, cd_query = None,
               cd_description = None, cd_response = None\<rparr>,
            sd_calls = Some []\<rparr>"
    by code_simp
qed

section \<open>The content type of a Response\<close>

text \<open>
  C6. A header named exactly \<open>Content-Type\<close> with the value
  \<open>application/json; charset=utf-8\<close> gives the content type \<open>application/json\<close> and the
  encoding \<open>utf-8\<close>; with the value \<open>text/plain\<close> it gives no encoding; a value that the
  pattern does not match leaves both absent. The name is compared as it is written: the
  same header under the name \<open>content-type\<close> leaves both absent.
\<close>

theorem C6_content_type_name_case:
  "Response_init ''200 OK''
       (Some [HPair ''X-Id'' ''1'', HPair ''Content-Type'' ''application/json; charset=utf-8''])
       None
     = Inr \<lparr>status = ''200 OK'',
            response_headers =
              [(''X-Id'', ''1''), (''Content-Type'', ''application/json; charset=utf-8'')],
            body = None, status_code = 200, status_text = Some ''OK'',
            response_content_type = Some ''application/json'', encoding = Some ''utf-8''\<rparr>
   \<and> Response_init ''200 OK'' (Some [HPair ''Content-Type'' ''text/plain'']) None
     = Inr \<lparr>status = ''200 OK'', response_headers = [(''Content-Type'', ''text/plain'')],
            body = None, status_code = 200, status_text = Some ''OK'',
            response_content_type = Some ''text/plain'', encoding = None\<rparr>
   \<and> Response_init ''200 OK'' (Some [HPair ''Content-Type'' ''json'']) None
     = Inr \<lparr>status = ''200 OK'', response_headers = [(''Content-Type'', ''json'')],
            body = None, status_code = 200, status_text = Some ''OK'',
            response_content_type = None, encoding = None\<rparr>
   \<and> Response_init ''200 OK''
       (Some [HPair ''content-type'' ''application/json; charset=utf-8'']) None
     = Inr \<lparr>status = ''200 OK'',
            response_headers = [(''content-type'', ''application/json; charset=utf-8'')],
            body = None, status_code = 200, status_text = Some ''OK'',
            response_content_type = None, encoding = None\<rparr>"
proof (intro conjI)
  show "Response_init ''200 OK''
       (Some [HPair ''X-Id'' ''1'', HPair ''Content-Type'' ''application/json; charset=utf-8''])
       None
     = Inr \<lparr>status = ''200 OK'',
            response_headers =
              [(''X-Id'', ''1''), (''Content-Type'', ''application/json; charset=utf-8'')],
            body = None, status_code = 200, status_text = Some ''OK'',
            response_content_type = Some ''application/json'', encoding = Some ''utf-8''\<rparr>"
    by code_simp
  show "Response_init ''200 OK'' (Some [HPair ''Content-Type'' ''text/plain'']) None
     = Inr \<lparr>status = ''200 OK'', response_headers = [(''Content-Type'', ''text/plain'')],
            body = None, status_code = 200, status_text = Some ''OK'',
            response_content_type = Some ''text/plain'', encoding = None\<rparr>"
    by code_simp
  show "Response_init ''200 OK'' (Some [HPair ''Content-Type'' ''json'']) None
     = Inr \<lparr>status = ''200 OK'', response_headers = [(''Content-Type'', ''json'')],
            body = None, status_code = 200, status_text = Some ''OK'',
            response_content_type = None, encoding = None\<rparr>"
    by code_simp
  show "Response_init ''200 OK''
       (Some [HPair ''content-type'' ''application/json; charset=utf-8'']) None
     = Inr \<lparr>status = ''200 OK'',
            response_headers = [(''content-type'', ''application/json; charset=utf-8'')],
            body = None, status_code = 200, status_text = Some ''OK'',
            response_content_type = None, encoding = None\<rparr>"
    by code_simp
qed

section \<open>Invocation leaves the Call as it is\<close>

lemma headers_or_new_frame:
  assumes "headers_or_new h r = (h1, a)"
  shows "length h \<le> length h1 \<and> (\<forall>i<length h. h1 ! i = h ! i)"
proof (cases r)
  case None
  with assms show ?thesis
    by (auto simp: headers_or_new_def nth_append)
next
  case (Some b)
  with assms show ?thesis
    by (cases "h ! b = []") (auto simp: headers_or_new_def nth_append)
qed

lemma replace_content_type_frame:
  assumes "replace_content_type ct (h1, a) = (h2, b)"
  shows "length h1 \<le> length h2 \<and> (\<forall>i<length h1. h2 ! i = h1 ! i)"
proof (cases ct)
  case None
  with assms show ?thesis
    by (simp add: replace_content_type_def)
next
  case (Some t)
  show ?thesis
  proof (cases "t = []")
    case True
    with assms Some show ?thesis
      by (simp add: replace_content_type_def)
  next
    case False
    with assms Some
    have h2: "h2 = h1 @ [filter (\<lambda>x. lower (fst x) \<noteq> ''content-type'') (h1 ! a)
        @ [(''Content-Type'', t)]]"
      by (auto simp: replace_content_type_def Let_def)
    show ?thesis
      unfolding h2 by (simp add: nth_append)
  qed
qed

lemma invoke_store:
  assumes "invoke urlencode application h self = ((h', self'), res)"
  shows "self' = self"
    and "h' = fst (replace_content_type (o_content_type self) (headers_or_new h (o_headers self)))"
  using assms by (simp_all add: invoke_def Let_def split: prod.splits)

lemma load_frame:
  assumes "\<forall>i<length h. h' ! i = h ! i" and "\<forall>a. o_headers self = Some a \<longrightarrow> a < length h"
  shows "load h' self = load h self"
proof (cases "o_headers self")
  case None
  then show ?thesis by (simp add: load_def)
next
  case (Some a)
  with assms have "h' ! a = h ! a" by simp
  with Some show ?thesis by (simp add: load_def)
qed

text \<open>
  C9. \<open>invoke\<close> leaves the Call as it is: no attribute of the object is assigned, not
  \<open>response\<close> either, and every list that was in the store before the invocation is in it
  unchanged afterwards, so the header list of the Call is. The Content-Type header is
  appended to a list made by the invocation, and the query string is appended to a new
  string. Hence the Call read from the store after the invocation is the Call read before.
\<close>

theorem C9_invoke_frame:
  assumes "invoke urlencode application h self = ((h', self'), res)"
  shows "self' = self
     \<and> length h \<le> length h'
     \<and> (\<forall>i<length h. h' ! i = h ! i)
     \<and> ((\<forall>a. o_headers self = Some a \<longrightarrow> a < length h) \<longrightarrow> load h' self' = load h self)"
proof -
  obtain h1 a where s1: "headers_or_new h (o_headers self) = (h1, a)"
    by (cases "headers_or_new h (o_headers self)")
  obtain h2 b where s2: "replace_content_type (o_content_type self) (h1, a) = (h2, b)"
    by (cases "replace_content_type (o_content_type self) (h1, a)")
  from invoke_store [OF assms] s1 s2 have self: "self' = self" and h': "h' = h2"
    by simp_all
  from headers_or_new_frame [OF s1] replace_content_type_frame [OF s2]
  have len: "length h \<le> length h'" and same: "\<forall>i<length h. h' ! i = h ! i"
    unfolding h' by auto
  from load_frame [OF same] self
  have "(\<forall>a. o_headers self = Some a \<longrightarrow> a < length h) \<longrightarrow> load h' self' = load h self"
    by simp
  with self len same show ?thesis by simp
qed

theorem C9_invoke_frame_witness:
  "invoke (\<lambda>q. concat (map (\<lambda>(k, v). k @ ''='' @ v) q))
      (\<lambda>rq. Inr \<lparr>tr_status = ''200 OK'', tr_headers = rq_headers rq, tr_body = rq_url rq\<rparr>)
      [[(''CONTENT-TYPE'', ''a/b''), (''X'', ''y'')]]
      \<lparr>o_title = ''t'', o_url = ''/x'', o_verb = ''POST'', o_url_parameters = [],
       o_form = Some [(''a'', ''b'')], o_content_type = Some ''text/plain'',
       o_headers = Some 0, o_as = None, o_query = Some [(''q'', ''1'')],
       o_description = None, o_extra_environ = None, o_response = None\<rparr>
   = (([[(''CONTENT-TYPE'', ''a/b''), (''X'', ''y'')],
        [(''X'', ''y''), (''Content-Type'', ''text/plain'')]],
       \<lparr>o_title = ''t'', o_url = ''/x'', o_verb = ''POST'', o_url_parameters = [],
        o_form = Some [(''a'', ''b'')], o_content_type = Some ''text/plain'',
        o_headers = Some 0, o_as = None, o_query = Some [(''q'', ''1'')],
        o_description = None, o_extra_environ = None, o_response = None\<rparr>),
      Inr \<lparr>status = ''200 OK'',
           response_headers = [(''X'', ''y''), (''Content-Type'', ''text/plain'')],
           body = Some ''/x?q=1'', status_code = 200, status_text = Some ''OK'',
           response_content_type = Some ''text/plain'', encoding = None\<rparr>)
   \<and> load [[(''CONTENT-TYPE'', ''a/b''), (''X'', ''y'')],
            [(''X'', ''y''), (''Content-Type'', ''text/plain'')]]
        \<lparr>o_title = ''t'', o_url = ''/x'', o_verb = ''POST'', o_url_parameters = [],
         o_form = Some [(''a'', ''b'')], o_content_type = Some ''text/plain'',
         o_headers = Some 0, o_as = None, o_query = Some [(''q'', ''1'')],
         o_description = None, o_extra_environ = None, o_response = None\<rparr>
     = load [[(''CONTENT-TYPE'', ''a/b''), (''X'', ''y'')]]
        \<lparr>o_title = ''t'', o_url = ''/x'', o_verb = ''POST'', o_url_parameters = [],
         o_form = Some [(''a'', ''b'')], o_content_type = Some ''text/plain'',
         o_headers = Some 0, o_as = None, o_query = Some [(''q'', ''1'')],
         o_description = None, o_extra_environ = None, o_response = None\<rparr>"
proof -
  have run: "invoke (\<lambda>q. concat (map (\<lambda>(k, v). k @ ''='' @ v) q))
      (\<lambda>rq. Inr \<lparr>tr_status = ''200 OK'', tr_headers = rq_headers rq, tr_body = rq_url rq\<rparr>)
      [[(''CONTENT-TYPE'', ''a/b''), (''X'', ''y'')]]
      \<lparr>o_title = ''t'', o_url = ''/x'', o_verb = ''POST'', o_url_parameters = [],
       o_form = Some [(''a'', ''b'')], o_content_type = Some ''text/plain'',
       o_headers = Some 0, o_as = None, o_query = Some [(''q'', ''1'')],
       o_description = None, o_extra_environ = None, o_response = None\<rparr>
   = (([[(''CONTENT-TYPE'', ''a/b''), (''X'', ''y'')],
        [(''X'', ''y''), (''Content-Type'', ''text/plain'')]],
       \<lparr>o_title = ''t'', o_url = ''/x'', o_verb = ''POST'', o_url_parameters = [],
        o_form = Some [(''a'', ''b'')], o_content_type = Some ''text/plain'',
        o_headers = Some 0, o_as = None, o_query = Some [(''q'', ''1'')],
        o_description = None, o_extra_environ = None, o_response = None\<rparr>),
      Inr \<lparr>status = ''200 OK'',
           response_headers = [(''X'', ''y''), (''Content-Type'', ''text/plain'')],
           body = Some ''/x?q=1'', status_code = 200, status_text = Some ''OK'',
           response_content_type = Some ''text/plain'', encoding = None\<rparr>)"
    by code_simp
  have valid: "\<forall>a. o_headers
        \<lparr>o_title = ''t'', o_url = ''/x'', o_verb = ''POST'', o_url_parameters = [],
         o_form = Some [(''a'', ''b'')], o_content_type = Some ''text/plain'',
         o_headers = Some 0, o_as = None, o_query = Some [(''q'', ''1'')],
         o_description = None, o_extra_environ = None, o_response = None\<rparr> = Some a
      \<longrightarrow> a < length [[(''CONTENT-TYPE'', ''a/b''), (''X'', ''y'')]]"
    by simp
  from C9_invoke_frame [OF run] valid
  have "load [[(''CONTENT-TYPE'', ''a/b''), (''X'', ''y'')],
            [(''X'', ''y''), (''Content-Type'', ''text/plain'')]]
        \<lparr>o_title = ''t'', o_url = ''/x'', o_verb = ''POST'', o_url_parameters = [],
         o_form = Some [(''a'', ''b'')], o_content_type = Some ''text/plain'',
         o_headers = Some 0, o_as = None, o_query = Some [(''q'', ''1'')],
         o_description = None, o_extra_environ = None, o_response = None\<rparr>
     = load [[(''CONTENT-TYPE'', ''a/b''), (''X'', ''y'')]]
        \<lparr>o_title = ''t'', o_url = ''/x'', o_verb = ''POST'', o_url_parameters = [],
         o_form = Some [(''a'', ''b'')], o_content_type = Some ''text/plain'',
         o_headers = Some 0, o_as = None, o_query = Some [(''q'', ''1'')],
         o_description = None, o_extra_environ = None, o_response = None\<rparr>"
    by blast
  with run show ?thesis by (rule conjI)
qed

section \<open>What the serialized forms omit\<close>

lemma Response_to_dict_Inr:
  assumes "Response_to_dict r = Inr rd"
  shows "rd_status rd = status r"
    and "rd_headers rd =
           (if response_headers r = [] then None
            else Some (map header_line (response_headers r)))"
    and "rd_body rd = None \<longleftrightarrow> body r = None \<or> body r = Some []"
    and "\<forall>b. body r = Some b \<and> b \<noteq> [] \<longrightarrow> utf8_decode b = Inr (the (rd_body rd))"
proof -
  show "rd_status rd = status r"
    using assms
    by (auto simp: Response_to_dict_def Let_def split: option.splits if_splits sum.splits)
  show "rd_headers rd =
           (if response_headers r = [] then None
            else Some (map header_line (response_headers r)))"
    using assms
    by (auto simp: Response_to_dict_def Let_def split: option.splits if_splits sum.splits)
  show "rd_body rd = None \<longleftrightarrow> body r = None \<or> body r = Some []"
    using assms
    by (auto simp: Response_to_dict_def Let_def split: option.splits if_splits sum.splits)
  show "\<forall>b. body r = Some b \<and> b \<noteq> [] \<longrightarrow> utf8_decode b = Inr (the (rd_body rd))"
    using assms
    by (auto simp: Response_to_dict_def Let_def split: option.splits if_splits sum.splits)
qed

lemma Call_to_dict_Inr:
  assumes "Call_to_dict c = Inr d"
  shows "cd_title d = title c \<and> cd_url d = url c \<and> cd_verb d = verb c"
    and "cd_url_parameters d = Some (url_parameters c)"
    and "cd_form d = form c \<and> cd_as d = as_label c \<and> cd_query d = query c
         \<and> cd_description d = description c"
    and "cd_headers d = map_option (map header_line) (headers c)"
    and "cd_response d = None \<longleftrightarrow> response c = None"
proof -
  from assms obtain rd where d: "d =
      \<lparr>cd_title = title c, cd_url = url c, cd_verb = verb c,
       cd_url_parameters = Some (url_parameters c), cd_form = form c,
       cd_headers = map_option (map header_line) (headers c),
       cd_as = as_label c, cd_query = query c, cd_description = description c,
       cd_response = rd\<rparr>"
    and rd: "(case response c of None \<Rightarrow> Inr None
              | Some r \<Rightarrow> map_sum id Some (Response_to_dict r)) = Inr rd"
    by (auto simp: Call_to_dict_def split: sum.splits)
  show "cd_title d = title c \<and> cd_url d = url c \<and> cd_verb d = verb c"
    by (simp add: d)
  show "cd_url_parameters d = Some (url_parameters c)"
    by (simp add: d)
  show "cd_form d = form c \<and> cd_as d = as_label c \<and> cd_query d = query c
         \<and> cd_description d = description c"
    by (simp add: d)
  show "cd_headers d = map_option (map header_line) (headers c)"
    by (simp add: d)
  show "cd_response d = None \<longleftrightarrow> response c = None"
  proof (cases "response c")
    case None
    with rd show ?thesis by (simp add: d)
  next
    case (Some r)
    with rd show ?thesis
      by (cases "Response_to_dict r") (auto simp: d)
  qed
qed

text \<open>
  C7, as the code has it. The serialized form of a Call always has \<open>url_parameters\<close>, the
  mapping of the Call, which is the empty mapping when the Call has no parameter; it has
  \<open>form\<close>, \<open>headers\<close>, \<open>as_\<close>, \<open>query\<close>, \<open>description\<close> and \<open>response\<close> exactly when the
  attribute is not \<open>None\<close>, so an empty form or an empty header list is serialized as an
  empty container. The serialized form of a Response has \<open>headers\<close> exactly when the
  Response has a header, and \<open>body\<close> exactly when its body is neither absent nor empty.
\<close>

theorem C7_to_dict_omission:
  "(Call_to_dict c = Inr d \<longrightarrow>
      cd_url_parameters d = Some (url_parameters c)
      \<and> cd_form d = form c
      \<and> cd_headers d = map_option (map header_line) (headers c)
      \<and> cd_as d = as_label c
      \<and> cd_query d = query c
      \<and> cd_description d = description c
      \<and> (cd_response d = None \<longleftrightarrow> response c = None))
   \<and> (Response_to_dict r = Inr rd \<longrightarrow>
      rd_headers rd =
        (if response_headers r = [] then None
         else Some (map header_line (response_headers r)))
      \<and> (rd_body rd = None \<longleftrightarrow> body r = None \<or> body r = Some []))"
proof (rule conjI)
  show "Call_to_dict c = Inr d \<longrightarrow>
      cd_url_parameters d = Some (url_parameters c)
      \<and> cd_form d = form c
      \<and> cd_headers d = map_option (map header_line) (headers c)
      \<and> cd_as d = as_label c
      \<and> cd_query d = query c
      \<and> cd_description d = description c
      \<and> (cd_response d = None \<longleftrightarrow> response c = None)"
  proof
    assume a: "Call_to_dict c = Inr d"
    from Call_to_dict_Inr(2) [OF a] Call_to_dict_Inr(3) [OF a] Call_to_dict_Inr(4) [OF a]
      Call_to_dict_Inr(5) [OF a]
    show "cd_url_parameters d = Some (url_parameters c)
      \<and> cd_form d = form c
      \<and> cd_headers d = map_option (map header_line) (headers c)
      \<and> cd_as d = as_label c
      \<and> cd_query d = query c
      \<and> cd_description d = description c
      \<and> (cd_response d = None \<longleftrightarrow> response c = None)"
      by simp
  qed
  show "Response_to_dict r = Inr rd \<longrightarrow>
      rd_headers rd =
        (if response_headers r = [] then None
         else Some (map header_line (response_headers r)))
      \<and> (rd_body rd = None \<longleftrightarrow> body r = None \<or> body r = Some [])"
  proof
    assume a: "Response_to_dict r = Inr rd"
    from Response_to_dict_Inr(2) [OF a] Response_to_dict_Inr(3) [OF a]
    show "rd_headers rd =
        (if response_headers r = [] then None
         else Some (map header_line (response_headers r)))
      \<and> (rd_body rd = None \<longleftrightarrow> body r = None \<or> body r = Some [])"
      by simp
  qed
qed

theorem C7_to_dict_omission_witness:
  "Call_to_dict
        \<lparr>title = ''t'', url = ''/'', verb = ''GET'', url_parameters = [], form = Some [],
         content_type = None, headers = Some [], as_label = None, query = None,
         description = None, extra_environ = None, response = None\<rparr>
     = Inr
        \<lparr>cd_title = ''t'', cd_url = ''/'', cd_verb = ''GET'', cd_url_parameters = Some [],
         cd_form = Some [], cd_headers = Some [], cd_as = None, cd_query = None,
         cd_description = None, cd_response = None\<rparr>
   \<and> Response_to_dict
        \<lparr>status = ''200 OK'', response_headers = [], body = Some [], status_code = 200,
         status_text = Some ''OK'', response_content_type = None, encoding = None\<rparr>
     = Inr
        \<lparr>rd_status = ''200 OK'', rd_headers = None, rd_body = None\<rparr>
   \<and> cd_url_parameters
        \<lparr>cd_title = ''t'', cd_url = ''/'', cd_verb = ''GET'', cd_url_parameters = Some [],
         cd_form = Some [], cd_headers = Some [], cd_as = None, cd_query = None,
         cd_description = None, cd_response = None\<rparr>
     = Some (url_parameters
        \<lparr>title = ''t'', url = ''/'', verb = ''GET'', url_parameters = [], form = Some [],
         content_type = None, headers = Some [], as_label = None, query = None,
         description = None, extra_environ = None, response = None\<rparr>)
   \<and> cd_form
        \<lparr>cd_title = ''t'', cd_url = ''/'', cd_verb = ''GET'', cd_url_parameters = Some [],
         cd_form = Some [], cd_headers = Some [], cd_as = None, cd_query = None,
         cd_description = None, cd_response = None\<rparr>
     = form
        \<lparr>title = ''t'', url = ''/'', verb = ''GET'', url_parameters = [], form = Some [],
         content_type = None, headers = Some [], as_label = None, query = None,
         description = None, extra_environ = None, response = None\<rparr>
   \<and> (rd_body
        \<lparr>rd_status = ''200 OK'', rd_headers = None, rd_body = None\<rparr> = None
     \<longleftrightarrow> body
        \<lparr>status = ''200 OK'', response_headers = [], body = Some [], status_code = 200,
         status_text = Some ''OK'', response_content_type = None, encoding = None\<rparr> = None
       \<or> body
        \<lparr>status = ''200 OK'', response_headers = [], body = Some [], status_code = 200,
         status_text = Some ''OK'', response_content_type = None, encoding = None\<rparr> = Some [])"
proof -
  have a: "Call_to_dict
        \<lparr>title = ''t'', url = ''/'', verb = ''GET'', url_parameters = [], form = Some [],
         content_type = None, headers = Some [], as_label = None, query = None,
         description = None, extra_environ = None, response = None\<rparr>
     = Inr
        \<lparr>cd_title = ''t'', cd_url = ''/'', cd_verb = ''GET'', cd_url_parameters = Some [],
         cd_form = Some [], cd_headers = Some [], cd_as = None, cd_query = None,
         cd_description = None, cd_response = None\<rparr>"
    by code_simp
  have b: "Response_to_dict
        \<lparr>status = ''200 OK'', response_headers = [], body = Some [], status_code = 200,
         status_text = Some ''OK'', response_content_type = None, encoding = None\<rparr>
     = Inr
        \<lparr>rd_status = ''200 OK'', rd_headers = None, rd_body = None\<rparr>"
    by code_simp
  note call = C7_to_dict_omission [THEN conjunct1, THEN mp, OF a]
  note resp = C7_to_dict_omission [THEN conjunct2, THEN mp, OF b]
  from call have c1: "cd_url_parameters
        \<lparr>cd_title = ''t'', cd_url = ''/'', cd_verb = ''GET'', cd_url_parameters = Some [],
         cd_form = Some [], cd_headers = Some [], cd_as = None, cd_query = None,
         cd_description = None, cd_response = None\<rparr>
     = Some (url_parameters
        \<lparr>title = ''t'', url = ''/'', verb = ''GET'', url_parameters = [], form = Some [],
         content_type = None, headers = Some [], as_label = None, query = None,
         description = None, extra_environ = None, response = None\<rparr>)"
    by (rule conjunct1)
  from call have c2: "cd_form
        \<lparr>cd_title = ''t'', cd_url = ''/'', cd_verb = ''GET'', cd_url_parameters = Some [],
         cd_form = Some [], cd_headers = Some [], cd_as = None, cd_query = None,
         cd_description = None, cd_response = None\<rparr>
     = form
        \<lparr>title = ''t'', url = ''/'', verb = ''GET'', url_parameters = [], form = Some [],
         content_type = None, headers = Some [], as_label = None, query = None,
         description = None, extra_environ = None, response = None\<rparr>"
    by (elim conjE)
  from resp have c3: "(rd_body
        \<lparr>rd_status = ''200 OK'', rd_headers = None, rd_body = None\<rparr> = None
     \<longleftrightarrow> body
        \<lparr>status = ''200 OK'', response_headers = [], body = Some [], status_code = 200,
         status_text = Some ''OK'', response_content_type = None, encoding = None\<rparr> = None
       \<or> body
        \<lparr>status = ''200 OK'', response_headers = [], body = Some [], status_code = 200,
         status_text = Some ''OK'', response_content_type = None, encoding = None\<rparr> = Some [])"
    by (rule conjunct2)
  from a b c1 c2 c3 show ?thesis
    by (intro conjI)
qed

text \<open>
  C7, as stated, fails. The Call built with no \<open>url_parameters\<close> is serialized with the
  entry \<open>url_parameters\<close>, an empty mapping; and the Call built with an empty form is
  serialized with the entry \<open>form\<close>, an empty mapping, where the specification has an empty field
  left out.
\<close>

theorem C7_counterexample:
  "Call_init ''t'' ''/'' ''GET'' None None None None None None None None None
     = Inr
        \<lparr>title = ''t'', url = ''/'', verb = ''GET'', url_parameters = [], form = None,
         content_type = None, headers = None, as_label = None, query = None,
         description = None, extra_environ = None, response = None\<rparr>
   \<and> map_sum id cd_url_parameters (Call_to_dict
        \<lparr>title = ''t'', url = ''/'', verb = ''GET'', url_parameters = [], form = None,
         content_type = None, headers = None, as_label = None, query = None,
         description = None, extra_environ = None, response = None\<rparr>)
     = Inr (Some [])
   \<and> Call_init ''t'' ''/'' ''GET'' None (Some []) None None None None None None None
     = Inr
        \<lparr>title = ''t'', url = ''/'', verb = ''GET'', url_parameters = [], form = Some [],
         content_type = None, headers = None, as_label = None, query = None,
         description = None, extra_environ = None, response = None\<rparr>
   \<and> map_sum id cd_form (Call_to_dict
        \<lparr>title = ''t'', url = ''/'', verb = ''GET'', url_parameters = [], form = Some [],
         content_type = None, headers = None, as_label = None, query = None,
         description = None, extra_environ = None, response = None\<rparr>)
     = Inr (Some [])"
proof (intro conjI)
  show "Call_init ''t'' ''/'' ''GET'' None None None None None None None None None
     = Inr
        \<lparr>title = ''t'', url = ''/'', verb = ''GET'', url_parameters = [], form = None,
         content_type = None, headers = None, as_label = None, query = None,
         description = None, extra_environ = None, response = None\<rparr>"
    by code_simp
  show "map_sum id cd_url_parameters (Call_to_dict
        \<lparr>title = ''t'', url = ''/'', verb = ''GET'', url_parameters = [], form = None,
         content_type = None, headers = None, as_label = None, query = None,
         description = None, extra_environ = None, response = None\<rparr>)
     = Inr (Some [])"
    by code_simp
  show "Call_init ''t'' ''/'' ''GET'' None (Some []) None None None None None None None
     = Inr
        \<lparr>title = ''t'', url = ''/'', verb = ''GET'', url_parameters = [], form = Some [],
         content_type = None, headers = None, as_label = None, query = None,
         description = None, extra_environ = None, response = None\<rparr>"
    by code_simp
  show "map_sum id cd_form (Call_to_dict
        \<lparr>title = ''t'', url = ''/'', verb = ''GET'', url_parameters = [], form = Some [],
         content_type = None, headers = None, as_label = None, query = None,
         description = None, extra_environ = None, response = None\<rparr>)
     = Inr (Some [])"
    by code_simp
qed

section \<open>The url\_parameters of an OverriddenCall\<close>

text \<open>
  C1. The base Call built from the URL \<open>/a: 1/b: 2\<close> has the url \<open>/:a/:b\<close> and the
  url\_parameters \<open>{a: 1, b: 2}\<close>. The OverriddenCall on it whose only difference is the
  url\_parameters \<open>{a: 99}\<close> is not built: the constructor looks up \<open>url_parameters\<close> in
  a diff that has the key only when it has a \<open>url\<close>, and raises \<open>KeyError\<close>. The claim
  expects a diff that carries the url\_parameters \<open>{a: 99}\<close> and the effective
  url\_parameters \<open>{a: 99, b: 2}\<close>.
\<close>

theorem C1_merge_url_parameters_KeyError:
  "Call_init ''base'' ''/a: 1/b: 2'' ''GET'' None None None None None None None None None
     = Inr
        \<lparr>title = ''base'', url = ''/:a/:b'', verb = ''GET'',
         url_parameters = [(''a'', ''1''), (''b'', ''2'')], form = None,
         content_type = None, headers = None, as_label = None, query = None,
         description = None, extra_environ = None, response = None\<rparr>
   \<and> OverriddenCall_init
        \<lparr>title = ''base'', url = ''/:a/:b'', verb = ''GET'',
         url_parameters = [(''a'', ''1''), (''b'', ''2'')], form = None,
         content_type = None, headers = None, as_label = None, query = None,
         description = None, extra_environ = None, response = None\<rparr>
        ''o'' None None (Some [(''a'', ''99'')]) no_diff
     = Inl (KeyError ''url_parameters'')"
proof (rule conjI)
  show "Call_init ''base'' ''/a: 1/b: 2'' ''GET'' None None None None None None None None None
     = Inr
        \<lparr>title = ''base'', url = ''/:a/:b'', verb = ''GET'',
         url_parameters = [(''a'', ''1''), (''b'', ''2'')], form = None,
         content_type = None, headers = None, as_label = None, query = None,
         description = None, extra_environ = None, response = None\<rparr>"
    by code_simp
  show "OverriddenCall_init
        \<lparr>title = ''base'', url = ''/:a/:b'', verb = ''GET'',
         url_parameters = [(''a'', ''1''), (''b'', ''2'')], form = None,
         content_type = None, headers = None, as_label = None, query = None,
         description = None, extra_environ = None, response = None\<rparr>
        ''o'' None None (Some [(''a'', ''99'')]) no_diff
     = Inl (KeyError ''url_parameters'')"
    by code_simp
qed

end
